theory Spec2Isabelle
  imports Main
begin

section \<open>JavaScript values and built-ins used by the framework\<close>

text \<open>
  The framework is TypeScript over untyped JSON: resource data, plugin parameters, quotes
  and trade amounts are all \<^verbatim>\<open>any\<close>. A value is therefore one of the JSON shapes, plus
  \<^verbatim>\<open>undefined\<close> (the result of reading a property that is not there). Numbers are the
  integer-valued ones that print in plain decimal (below 10^21 in magnitude): no property
  proved below depends on a fraction. An object is the
  list of its own properties; a lookup takes the first entry of a key. Strings are lists of
  code units below 256 (Latin-1).
\<close>

datatype jsval =
    JUndefined
  | JNull
  | JBool bool
  | JNum int
  | JStr string
  | JArr "jsval list"
  | JObj "(string \<times> jsval) list"

text \<open>
  Errors are values. Each constructor is one \<^verbatim>\<open>throw\<close> of the sources or one failure of
  a built-in; the wrapping constructors are the \<^verbatim>\<open>catch\<close> blocks that re-throw with a
  prefixed message.
  \<^item> \<open>AccountNotInitialized\<close>: "Account not initialized. Please provide private key."
  \<^item> \<open>PluginNotFound n\<close>: "Plugin n not found"
  \<^item> \<open>UnknownAction a\<close>: "Unknown action: a"
  \<^item> \<open>InsufficientBalance\<close>: "Insufficient balance for trade"
  \<^item> \<open>PriceImpactTooHigh\<close>: "Price impact too high"
  \<^item> \<open>JsTypeError\<close>: a property read on \<^verbatim>\<open>undefined\<close> or \<^verbatim>\<open>null\<close>, or \<^verbatim>\<open>reduce\<close> of
    an empty array
  \<^item> \<open>BigIntError v\<close>: \<^verbatim>\<open>BigInt(v)\<close> of a value that is no integer
  \<^item> \<open>External m\<close>: an error with message \<open>m\<close> raised outside the given sources (the node
    client, the completion service, a market feed, a plugin of another implementation)
  \<^item> \<open>PortfolioAnalysisFailed e\<close>: "Portfolio analysis failed: " followed by the message
    of \<open>e\<close>; likewise the other wrappers.
\<close>

datatype error =
    AccountNotInitialized
  | PluginNotFound string
  | UnknownAction string
  | InsufficientBalance
  | PriceImpactTooHigh
  | JsTypeError
  | BigIntError jsval
  | External string
  | PortfolioAnalysisFailed error
  | SwapAnalysisFailed error
  | TradingCycleFailed error
  | MarketDataFailed error
  | MarketAnalysisFailed error
  | TradeExecutionFailed error

subsection \<open>Property access and truthiness\<close>

definition obj_get :: "(string \<times> jsval) list \<Rightarrow> string \<Rightarrow> jsval" where
  "obj_get kvs k = (case map_of kvs k of None \<Rightarrow> JUndefined | Some v \<Rightarrow> v)"

text \<open>\<^verbatim>\<open>v.k\<close>: a TypeError on \<^verbatim>\<open>undefined\<close> and \<^verbatim>\<open>null\<close>, \<^verbatim>\<open>undefined\<close> on the other
  primitives and on arrays (the keys read by the sources are no index and no property of a
  string, number, boolean or array).\<close>

fun js_get :: "jsval \<Rightarrow> string \<Rightarrow> error + jsval" where
  "js_get JUndefined k = Inl JsTypeError"
| "js_get JNull k = Inl JsTypeError"
| "js_get (JObj kvs) k = Inr (obj_get kvs k)"
| "js_get v k = Inr JUndefined"

text \<open>\<^verbatim>\<open>v?.k\<close>: as \<open>js_get\<close>, but \<^verbatim>\<open>undefined\<close> where that one throws.\<close>

fun js_get_opt :: "jsval \<Rightarrow> string \<Rightarrow> jsval" where
  "js_get_opt (JObj kvs) k = obj_get kvs k"
| "js_get_opt v k = JUndefined"

fun truthy :: "jsval \<Rightarrow> bool" where
  "truthy JUndefined = False"
| "truthy JNull = False"
| "truthy (JBool b) = b"
| "truthy (JNum n) = (n \<noteq> 0)"
| "truthy (JStr s) = (s \<noteq> [])"
| "truthy (JArr xs) = True"
| "truthy (JObj kvs) = True"

text \<open>\<^verbatim>\<open>a || b\<close>\<close>

definition js_or :: "jsval \<Rightarrow> jsval \<Rightarrow> jsval" where
  "js_or a b = (if truthy a then a else b)"

subsection \<open>\<^verbatim>\<open>BigInt(v)\<close>\<close>

text \<open>
  The conversion of a string follows the StringToBigInt grammar of ECMAScript: white space
  is trimmed; the empty string is 0; decimal digits may carry one sign; the prefixes
  \<^verbatim>\<open>0x\<close>, \<^verbatim>\<open>0o\<close>, \<^verbatim>\<open>0b\<close> (either case) take hexadecimal, octal and binary digits and
  no sign; anything else is a SyntaxError. An array is converted through its string: its
  elements joined by commas, \<^verbatim>\<open>undefined\<close> and \<^verbatim>\<open>null\<close> as the empty string. An
  object has the string \<^verbatim>\<open>[object Object]\<close>, which is no integer.
\<close>

fun digits10 :: "nat \<Rightarrow> string" where
  "digits10 n =
     (if n < 10 then [char_of (48 + n)] else digits10 (n div 10) @ [char_of (48 + n mod 10)])"

definition int_toString :: "int \<Rightarrow> string" where
  "int_toString i = (if i < 0 then CHR ''-'' # digits10 (nat (- i)) else digits10 (nat i))"

fun joinComma :: "string list \<Rightarrow> string" where
  "joinComma [] = []"
| "joinComma [s] = s"
| "joinComma (s # t # ss) = s @ CHR '','' # joinComma (t # ss)"

fun js_toString :: "jsval \<Rightarrow> string" where
  "js_toString JUndefined = ''undefined''"
| "js_toString JNull = ''null''"
| "js_toString (JBool b) = (if b then ''true'' else ''false'')"
| "js_toString (JNum n) = int_toString n"
| "js_toString (JStr s) = s"
| "js_toString (JArr xs) =
     joinComma (map (\<lambda>x. if x = JUndefined \<or> x = JNull then [] else js_toString x) xs)"
| "js_toString (JObj kvs) = ''[object Object]''"

definition isWhiteSpace :: "char \<Rightarrow> bool" where
  "isWhiteSpace c =
     (c \<in> set [CHR 0x09, CHR 0x0A, CHR 0x0B, CHR 0x0C, CHR 0x0D, CHR 0x20, CHR 0xA0])"

definition trim :: "string \<Rightarrow> string" where
  "trim s = rev (dropWhile isWhiteSpace (rev (dropWhile isWhiteSpace s)))"

definition digitValue :: "char \<Rightarrow> nat option" where
  "digitValue c =
     (let n = (of_char c :: nat) in
      if 48 \<le> n \<and> n \<le> 57 then Some (n - 48)
      else if 97 \<le> n \<and> n \<le> 102 then Some (n - 87)
      else if 65 \<le> n \<and> n \<le> 70 then Some (n - 55)
      else None)"

fun digitsValue :: "nat \<Rightarrow> nat \<Rightarrow> string \<Rightarrow> nat option" where
  "digitsValue b acc [] = Some acc"
| "digitsValue b acc (c # cs) =
     (case digitValue c of
        None \<Rightarrow> None
      | Some d \<Rightarrow> if d < b then digitsValue b (acc * b + d) cs else None)"

definition parseDigits :: "nat \<Rightarrow> string \<Rightarrow> nat option" where
  "parseDigits b s = (if s = [] then None else digitsValue b 0 s)"

definition radixOf :: "char \<Rightarrow> nat option" where
  "radixOf c =
     (if c = CHR ''x'' \<or> c = CHR ''X'' then Some 16
      else if c = CHR ''o'' \<or> c = CHR ''O'' then Some 8
      else if c = CHR ''b'' \<or> c = CHR ''B'' then Some 2
      else None)"

definition StringToBigInt :: "string \<Rightarrow> int option" where
  "StringToBigInt s =
     (case trim s of
        [] \<Rightarrow> Some 0
      | c # cs \<Rightarrow>
          if c = CHR ''+'' then map_option int (parseDigits 10 cs)
          else if c = CHR ''-'' then map_option (\<lambda>n. - int n) (parseDigits 10 cs)
          else (case (if c = CHR ''0'' then cs else []) of
                  p # ds \<Rightarrow>
                    (case radixOf p of
                       Some b \<Rightarrow> map_option int (parseDigits b ds)
                     | None \<Rightarrow> map_option int (parseDigits 10 (c # cs)))
                | [] \<Rightarrow> map_option int (parseDigits 10 (c # cs))))"

fun BigInt :: "jsval \<Rightarrow> error + int" where
  "BigInt (JBool b) = Inr (if b then 1 else 0)"
| "BigInt (JNum n) = Inr n"
| "BigInt (JStr s) =
     (case StringToBigInt s of None \<Rightarrow> Inl (BigIntError (JStr s)) | Some n \<Rightarrow> Inr n)"
| "BigInt (JArr xs) =
     (case StringToBigInt (js_toString (JArr xs)) of
        None \<Rightarrow> Inl (BigIntError (JArr xs))
      | Some n \<Rightarrow> Inr n)"
| "BigInt v = Inl (BigIntError v)"

subsection \<open>\<^verbatim>\<open>String.prototype.includes\<close> and \<^verbatim>\<open>toLowerCase\<close>\<close>

fun str_includes :: "string \<Rightarrow> string \<Rightarrow> bool" where
  "str_includes [] search = (search = [])"
| "str_includes (c # cs) search =
     (take (length search) (c # cs) = search \<or> str_includes cs search)"

text \<open>Lower-casing of a Latin-1 code unit: A to Z, and the accented capitals 0xC0 to 0xDE but
  for the multiplication sign 0xD7, move up by 32.\<close>

definition toLowerChar :: "char \<Rightarrow> char" where
  "toLowerChar c =
     (let n = (of_char c :: nat) in
      if (65 \<le> n \<and> n \<le> 90) \<or> (192 \<le> n \<and> n \<le> 222 \<and> n \<noteq> 215)
      then char_of (n + 32) else c)"

definition toLowerCase :: "string \<Rightarrow> string" where
  "toLowerCase s = map toLowerChar s"

section \<open>The data model\<close>

text \<open>A resource of an account, as the node returns it and the SDK types it
  (\<^verbatim>\<open>MoveResource\<close>): a type tag and a data object. The sources test
  \<^verbatim>\<open>'data' in position\<close>, so the data object may be absent.\<close>

record resource =
  type :: string
  data :: "(string \<times> jsval) list option"

text \<open>The signing account the SDK derives from a private key.\<close>

record aptosAccount =
  privateKeyHex :: string
  accountAddress :: string

text \<open>The payload \<^verbatim>\<open>executeTrade\<close> builds (\<open>function_id\<close> is its field \<^verbatim>\<open>function\<close>).\<close>

record payload =
  function_id :: string
  type_arguments :: "string list"
  arguments :: "jsval list"

text \<open>\<^verbatim>\<open>TradingDecision\<close> and its trade: declared in a module that is not among the sources;
  the fields are those the sources read. The amounts are untyped there.\<close>

record tradeIntent =
  protocol :: string
  fromToken :: string
  toToken :: string
  amount :: jsval
  minOutput :: jsval

record tradingDecision =
  shouldTrade :: bool
  trade :: "tradeIntent option"
  reasoning :: string

record marketData =
  prices :: jsval
  volumes :: jsval
  liquidityDepth :: jsval
  timestamp :: int

text \<open>A request to the completion service, by the prompt that is built: the pieces that
  the sources interpolate into the message, not the rendered text.\<close>

datatype chat_request =
    TxPatternsPrompt jsval
  | AdvicePrompt "resource list" string int
  | SwapAdvicePrompt "jsval list" jsval string string string
  | MarketPrompt string marketData

section \<open>Effects: what an operation asks of the outside world\<close>

text \<open>
  Every call that leaves the process is logged as an event, in the order the calls are
  issued, together with every dispatch to a plugin and every notification emitted. An
  operation returns its outcome and its log.
\<close>

datatype event =
    GetAccountResources jsval
  | GetAccountTransactions string
  | GenerateTransaction string payload
  | SignTransaction aptosAccount jsval
  | SubmitTransaction string
  | ChatCompletion chat_request
  | FetchPrices
  | FetchVolumes
  | FetchLiquidity
  | PluginExecute string string jsval
  | EmitTrade jsval "tradeIntent option" string

type_synonym 'a io = "(error + 'a) \<times> event list"

definition io_return :: "'a \<Rightarrow> 'a io" where
  "io_return x = (Inr x, [])"

definition io_throw :: "error \<Rightarrow> 'a io" where
  "io_throw e = (Inl e, [])"

text \<open>\<^verbatim>\<open>const x = await m; ...\<close>: a failure of \<open>m\<close> ends the operation.\<close>

definition io_bind :: "'a io \<Rightarrow> ('a \<Rightarrow> 'b io) \<Rightarrow> 'b io" where
  "io_bind m f =
     (case m of
        (Inl e, t) \<Rightarrow> (Inl e, t)
      | (Inr x, t) \<Rightarrow> (case f x of (r, t') \<Rightarrow> (r, t @ t')))"

text \<open>\<^verbatim>\<open>try { m } catch (error) { throw new Error(prefix + error.message) }\<close>\<close>

definition io_catch :: "(error \<Rightarrow> error) \<Rightarrow> 'a io \<Rightarrow> 'a io" where
  "io_catch wrap m = (case m of (Inl e, t) \<Rightarrow> (Inl (wrap e), t) | (Inr x, t) \<Rightarrow> (Inr x, t))"

text \<open>One call to a collaborator: the event, and the answer or the message of its error.\<close>

definition io_request :: "event \<Rightarrow> string + 'a \<Rightarrow> 'a io" where
  "io_request ev r = (case r of Inl m \<Rightarrow> (Inl (External m), [ev]) | Inr x \<Rightarrow> (Inr x, [ev]))"

text \<open>An event logged ahead of the operation it starts.\<close>

definition io_log :: "event \<Rightarrow> 'a io \<Rightarrow> 'a io" where
  "io_log ev m = (fst m, ev # snd m)"

text \<open>A synchronous step that may throw.\<close>

definition io_lift :: "error + 'a \<Rightarrow> 'a io" where
  "io_lift r = (r, [])"

text \<open>\<^verbatim>\<open>Promise.all\<close>: every operation of the list has been started, so every log is kept;
  the outcome is the list of results, or an error if one failed (the leftmost one here: which
  rejection comes first in time is not modelled).\<close>

fun io_all :: "'a io list \<Rightarrow> 'a list io" where
  "io_all [] = (Inr [], [])"
| "io_all (m # ms) =
     (case m of (r, t) \<Rightarrow>
        (case io_all ms of (rs, ts) \<Rightarrow>
           ((case r of
               Inl e \<Rightarrow> Inl e
             | Inr x \<Rightarrow> (case rs of Inl e \<Rightarrow> Inl e | Inr xs \<Rightarrow> Inr (x # xs))),
            t @ ts)))"

text \<open>
  The outside world: the node behind the SDK's client, the completion service, the market
  feeds, the clock. Each answers a request with a result or with the message of the error
  it raises. Members of the classes that the sources call but do not define
  (\<^verbatim>\<open>getAccountTransactions\<close>, \<^verbatim>\<open>getAddress\<close>, \<^verbatim>\<open>getClient\<close>, \<^verbatim>\<open>fetchPrices\<close>,
  \<^verbatim>\<open>fetchVolumes\<close>, \<^verbatim>\<open>fetchLiquidity\<close>, \<^verbatim>\<open>parseTradeDecision\<close>) are parameters here
  as well, and so is the floating-point test \<^verbatim>\<open>parseFloat(quote.priceImpact) > 1.0\<close>.
  The call of \<^verbatim>\<open>getClient\<close> answers with a client or raises: nothing in the sources says
  which.
\<close>

record world =
  new_AptosAccount :: "string \<Rightarrow> string + aptosAccount"
  client_getAccountResources :: "jsval \<Rightarrow> string + resource list"
  client_getAccountTransactions :: "string \<Rightarrow> string + jsval"
  client_generateTransaction :: "string \<Rightarrow> payload \<Rightarrow> string + jsval"
  client_signTransaction :: "aptosAccount \<Rightarrow> jsval \<Rightarrow> string + string"
  client_submitTransaction :: "string \<Rightarrow> string + jsval"
  chat_completion :: "chat_request \<Rightarrow> string + string"
  fetchPrices :: "string + jsval"
  fetchVolumes :: "string + jsval"
  fetchLiquidity :: "string + jsval"
  parseTradeDecision :: "string \<Rightarrow> string + tradingDecision"
  priceImpactAboveOne :: "jsval \<Rightarrow> bool"
  getAddress :: string
  getClient :: "string + string"
  date_now :: int
  date_market :: int
  date_trade :: int

section \<open>\<^verbatim>\<open>src/core/AptosAI.ts\<close>\<close>

text \<open>A plugin is an implementation of \<^verbatim>\<open>DeFiPlugin\<close>: the one of the repository, or any
  other \<^verbatim>\<open>execute\<close>, which answers or raises an error of its own.\<close>

datatype plugin =
    LiquidityPoolPlugin
  | OtherPlugin "string \<Rightarrow> jsval \<Rightarrow> string + jsval"

record AptosAI =
  client :: string
  account :: "aptosAccount option"
  openai :: "string option"
  plugins :: "string \<rightharpoonup> plugin"

text \<open>\<^verbatim>\<open>if (key)\<close> on an optional string: absent and empty are both falsy.\<close>

definition truthy_key :: "string option \<Rightarrow> string option" where
  "truthy_key k = (case k of None \<Rightarrow> None | Some s \<Rightarrow> if s = [] then None else Some s)"

definition AptosAI_constructor ::
  "world \<Rightarrow> string \<Rightarrow> string option \<Rightarrow> string option \<Rightarrow> error + AptosAI" where
  "AptosAI_constructor w nodeUrl privateKey openaiKey =
     (case (case truthy_key privateKey of
              None \<Rightarrow> Inr None
            | Some k \<Rightarrow>
                (case new_AptosAccount w k of
                   Inl m \<Rightarrow> Inl (External m)
                 | Inr acc \<Rightarrow> Inr (Some acc))) of
        Inl e \<Rightarrow> Inl e
      | Inr acc \<Rightarrow>
          Inr \<lparr>client = nodeUrl, account = acc, openai = truthy_key openaiKey,
               plugins = Map.empty\<rparr>)"

definition getAccountResources :: "world \<Rightarrow> AptosAI \<Rightarrow> string \<Rightarrow> resource list io" where
  "getAccountResources w this address =
     io_request (GetAccountResources (JStr address)) (client_getAccountResources w (JStr address))"

text \<open>\<^verbatim>\<open>coinResource?.data?.coin?.value\<close>\<close>

definition coinValue :: "resource option \<Rightarrow> jsval" where
  "coinValue coinResource =
     (case coinResource of
        None \<Rightarrow> JUndefined
      | Some r \<Rightarrow>
          (case data r of
             None \<Rightarrow> JUndefined
           | Some d \<Rightarrow> js_get_opt (obj_get d ''coin'') ''value''))"

definition defaultCoinType :: string where
  "defaultCoinType = ''0x1::aptos_coin::AptosCoin''"

definition getAccountBalance :: "world \<Rightarrow> AptosAI \<Rightarrow> string \<Rightarrow> string option \<Rightarrow> jsval io" where
  "getAccountBalance w this address coinTypeArg =
     (let coinType = (case coinTypeArg of None \<Rightarrow> defaultCoinType | Some c \<Rightarrow> c) in
      io_bind (getAccountResources w this address) (\<lambda>resources.
        let coinResource = find (\<lambda>r. type r = coinType) resources in
        io_return (js_or (coinValue coinResource) (JStr ''0''))))"

definition submitTransaction :: "world \<Rightarrow> AptosAI \<Rightarrow> payload \<Rightarrow> jsval io" where
  "submitTransaction w this pl =
     (case account this of
        None \<Rightarrow> io_throw AccountNotInitialized
      | Some acc \<Rightarrow>
          io_bind (io_request (GenerateTransaction (accountAddress acc) pl)
                     (client_generateTransaction w (accountAddress acc) pl)) (\<lambda>txnRequest.
          io_bind (io_request (SignTransaction acc txnRequest)
                     (client_signTransaction w acc txnRequest)) (\<lambda>signedTxn.
          io_request (SubmitTransaction signedTxn) (client_submitTransaction w signedTxn))))"

definition registerPlugin :: "AptosAI \<Rightarrow> string \<Rightarrow> plugin \<Rightarrow> AptosAI" where
  "registerPlugin this name p = this\<lparr>plugins := (plugins this)(name \<mapsto> p)\<rparr>"

subsection \<open>\<^verbatim>\<open>LiquidityPoolPlugin\<close>\<close>

text \<open>A resource as the JavaScript object it is.\<close>

definition resource_value :: "resource \<Rightarrow> jsval" where
  "resource_value r =
     JObj ((''type'', JStr (type r)) #
           (case data r of None \<Rightarrow> [] | Some d \<Rightarrow> [(''data'', JObj d)]))"

definition getPoolInfo :: "world \<Rightarrow> jsval \<Rightarrow> jsval io" where
  "getPoolInfo w poolAddress =
     io_bind (io_request (GetAccountResources poolAddress)
                (client_getAccountResources w poolAddress)) (\<lambda>resources.
     io_return (JArr (map resource_value
                        (filter (\<lambda>r. str_includes (type r) ''LiquidityPool'') resources))))"

definition calculateSwap :: "jsval \<Rightarrow> jsval \<Rightarrow> jsval" where
  "calculateSwap poolAddress amt =
     JObj [(''estimatedOutput'', amt), (''priceImpact'', JStr ''0.1%'')]"

definition LiquidityPoolPlugin_execute :: "world \<Rightarrow> string \<Rightarrow> jsval \<Rightarrow> jsval io" where
  "LiquidityPoolPlugin_execute w action params =
     (if action = ''getPoolInfo'' then
        io_bind (io_lift (js_get params ''poolAddress'')) (\<lambda>poolAddress. getPoolInfo w poolAddress)
      else if action = ''calculateSwap'' then
        io_bind (io_lift (js_get params ''poolAddress'')) (\<lambda>poolAddress.
        io_bind (io_lift (js_get params ''amount'')) (\<lambda>amt.
        io_return (calculateSwap poolAddress amt)))
      else io_throw (UnknownAction action))"

text \<open>\<^verbatim>\<open>plugin.execute(action, params)\<close>, by the class of the plugin.\<close>

fun execute :: "world \<Rightarrow> plugin \<Rightarrow> string \<Rightarrow> jsval \<Rightarrow> jsval io" where
  "execute w LiquidityPoolPlugin action params = LiquidityPoolPlugin_execute w action params"
| "execute w (OtherPlugin f) action params =
     io_lift (case f action params of Inl m \<Rightarrow> Inl (External m) | Inr v \<Rightarrow> Inr v)"

definition executePluginAction ::
  "world \<Rightarrow> AptosAI \<Rightarrow> string \<Rightarrow> string \<Rightarrow> jsval \<Rightarrow> jsval io" where
  "executePluginAction w this pluginName action params =
     (case plugins this pluginName of
        None \<Rightarrow> io_throw (PluginNotFound pluginName)
      | Some p \<Rightarrow>
          io_log (PluginExecute pluginName action params) (execute w p action params))"

section \<open>\<^verbatim>\<open>DeFiAdvisorAgent\<close>\<close>

record DeFiAdvisorAgent =
  aptosAI :: AptosAI

record portfolioAnalysis =
  positions :: "resource list"
  history :: string
  advice :: string

record swapSuggestion =
  recommendation :: string
  quotes :: "jsval list"

datatype riskLevel = LOW | MEDIUM | HIGH

text \<open>\<^verbatim>\<open>Promise.all\<close> of two operations of different types.\<close>

definition io_both :: "'a io \<Rightarrow> 'b io \<Rightarrow> ('a \<times> 'b) io" where
  "io_both m n =
     (case m of (r, t) \<Rightarrow>
        (case n of (r', t') \<Rightarrow>
           ((case r of
               Inl e \<Rightarrow> Inl e
             | Inr x \<Rightarrow> (case r' of Inl e \<Rightarrow> Inl e | Inr y \<Rightarrow> Inr (x, y))),
            t @ t')))"

text \<open>\<^verbatim>\<open>initializePlugins\<close>, the same in both agents: the plugin is built from
  \<^verbatim>\<open>this.aptosAI.getClient()\<close> and registered under \<^verbatim>\<open>liquidityPool\<close>. When the call of
  \<^verbatim>\<open>getClient\<close> raises, so does the constructor that runs this. The plugin's own client
  is the node of the world.\<close>

definition initializePlugins :: "world \<Rightarrow> AptosAI \<Rightarrow> error + AptosAI" where
  "initializePlugins w a =
     (case getClient w of
        Inl m \<Rightarrow> Inl (External m)
      | Inr c \<Rightarrow> Inr (registerPlugin a ''liquidityPool'' LiquidityPoolPlugin))"

text \<open>The agent's own facade has no key.\<close>

definition DeFiAdvisorAgent_constructor ::
  "world \<Rightarrow> string \<Rightarrow> string \<Rightarrow> error + DeFiAdvisorAgent" where
  "DeFiAdvisorAgent_constructor w nodeUrl openaiKey =
     (case AptosAI_constructor w nodeUrl None None of
        Inl e \<Rightarrow> Inl e
      | Inr a \<Rightarrow>
          (case initializePlugins w a of
             Inl e \<Rightarrow> Inl e
           | Inr a' \<Rightarrow> Inr \<lparr>aptosAI = a'\<rparr>))"

definition getAccountTransactions :: "world \<Rightarrow> AptosAI \<Rightarrow> string \<Rightarrow> jsval io" where
  "getAccountTransactions w this address =
     io_request (GetAccountTransactions address) (client_getAccountTransactions w address)"

definition analyzeTxPatterns :: "world \<Rightarrow> jsval \<Rightarrow> string io" where
  "analyzeTxPatterns w transactions =
     io_request (ChatCompletion (TxPatternsPrompt transactions))
       (chat_completion w (TxPatternsPrompt transactions))"

definition generateAdvice :: "world \<Rightarrow> resource list \<Rightarrow> string \<Rightarrow> int \<Rightarrow> string io" where
  "generateAdvice w ps patterns totalValue =
     io_request (ChatCompletion (AdvicePrompt ps patterns totalValue))
       (chat_completion w (AdvicePrompt ps patterns totalValue))"

definition generateSwapAdvice ::
  "world \<Rightarrow> jsval list \<Rightarrow> jsval \<Rightarrow> string \<Rightarrow> string \<Rightarrow> string \<Rightarrow> string io" where
  "generateSwapAdvice w qs bestQuote fromTok toTok amt =
     io_request (ChatCompletion (SwapAdvicePrompt qs bestQuote fromTok toTok amt))
       (chat_completion w (SwapAdvicePrompt qs bestQuote fromTok toTok amt))"

text \<open>The filter for DeFi positions of \<^verbatim>\<open>analyzePortfolio\<close>.\<close>

definition defiPositions :: "resource list \<Rightarrow> resource list" where
  "defiPositions resources =
     filter (\<lambda>r. str_includes (type r) ''LiquidityPool'' \<or>
                 str_includes (type r) ''Stake'' \<or>
                 str_includes (type r) ''Farm'') resources"

text \<open>\<^verbatim>\<open>'data' in position && 'value' in position.data\<close>\<close>

definition hasValueField :: "resource \<Rightarrow> bool" where
  "hasValueField position =
     (case data position of None \<Rightarrow> False | Some d \<Rightarrow> ''value'' \<in> fst ` set d)"

text \<open>\<^verbatim>\<open>position.data.value\<close>, read where the test above holds.\<close>

definition valueField :: "resource \<Rightarrow> jsval" where
  "valueField position =
     (case data position of None \<Rightarrow> JUndefined | Some d \<Rightarrow> obj_get d ''value'')"

text \<open>The loop that adds up the total value locked: \<open>totalValue\<close> is the accumulator.\<close>

fun totalValueLoop :: "int \<Rightarrow> resource list \<Rightarrow> error + int" where
  "totalValueLoop totalValue [] = Inr totalValue"
| "totalValueLoop totalValue (position # rest) =
     (if hasValueField position then
        (case BigInt (valueField position) of
           Inl e \<Rightarrow> Inl e
         | Inr v \<Rightarrow> totalValueLoop (totalValue + v) rest)
      else totalValueLoop totalValue rest)"

definition analyzePortfolio :: "world \<Rightarrow> DeFiAdvisorAgent \<Rightarrow> string \<Rightarrow> portfolioAnalysis io" where
  "analyzePortfolio w this address =
     io_catch PortfolioAnalysisFailed
       (io_bind (io_both (getAccountResources w (aptosAI this) address)
                         (getAccountTransactions w (aptosAI this) address))
          (\<lambda>(resources, transactions).
             let ps = defiPositions resources in
             io_bind (io_lift (totalValueLoop 0 ps)) (\<lambda>totalValue.
             io_bind (analyzeTxPatterns w transactions) (\<lambda>txPatterns.
             io_bind (generateAdvice w ps txPatterns totalValue) (\<lambda>adv.
             io_return \<lparr>positions = ps, history = txPatterns, advice = adv\<rparr>)))))"

text \<open>\<^verbatim>\<open>quotes.reduce((best, current) => BigInt(current.outputAmount) >
  BigInt(best.outputAmount) ? current : best)\<close>: with no initial value the first element
  starts as \<open>best\<close> and the callback runs from the second on; an empty array is a TypeError.
  The left operand of the comparison is evaluated first.\<close>

definition outputAmountOf :: "jsval \<Rightarrow> error + int" where
  "outputAmountOf q = (case js_get q ''outputAmount'' of Inl e \<Rightarrow> Inl e | Inr v \<Rightarrow> BigInt v)"

fun reduceBest :: "jsval \<Rightarrow> jsval list \<Rightarrow> error + jsval" where
  "reduceBest best [] = Inr best"
| "reduceBest best (current # rest) =
     (case outputAmountOf current of
        Inl e \<Rightarrow> Inl e
      | Inr c \<Rightarrow>
          (case outputAmountOf best of
             Inl e \<Rightarrow> Inl e
           | Inr b \<Rightarrow> reduceBest (if c > b then current else best) rest))"

definition bestQuote :: "jsval list \<Rightarrow> error + jsval" where
  "bestQuote qs = (case qs of [] \<Rightarrow> Inl JsTypeError | q # rest \<Rightarrow> reduceBest q rest)"

definition dexes :: "string list" where
  "dexes = [''pancake'', ''liquidswap'']"

definition swapParams :: "string \<Rightarrow> string \<Rightarrow> string \<Rightarrow> string \<Rightarrow> jsval" where
  "swapParams dex fromTok toTok amt =
     JObj [(''dex'', JStr dex), (''fromToken'', JStr fromTok), (''toToken'', JStr toTok),
           (''amount'', JStr amt)]"

definition suggestOptimalSwap ::
  "world \<Rightarrow> DeFiAdvisorAgent \<Rightarrow> string \<Rightarrow> string \<Rightarrow> string \<Rightarrow> swapSuggestion io" where
  "suggestOptimalSwap w this fromTok toTok amt =
     io_catch SwapAnalysisFailed
       (io_bind (io_all (map (\<lambda>dex. executePluginAction w (aptosAI this) ''liquidityPool''
                                       ''calculateSwap'' (swapParams dex fromTok toTok amt)) dexes))
          (\<lambda>qs.
             io_bind (io_lift (bestQuote qs)) (\<lambda>best.
             io_bind (generateSwapAdvice w qs best fromTok toTok amt) (\<lambda>r.
             io_return \<lparr>recommendation = r, quotes = qs\<rparr>))))"

definition lowRiskTerms :: "string list" where
  "lowRiskTerms = [''safe'', ''secure'', ''reliable'', ''established'']"

definition highRiskTerms :: "string list" where
  "highRiskTerms = [''dangerous'', ''risky'', ''unstable'', ''vulnerable'']"

definition determineRiskLevel :: "string \<Rightarrow> riskLevel" where
  "determineRiskLevel analysis =
     (let analysisLower = toLowerCase analysis in
      if list_ex (\<lambda>t. str_includes analysisLower t) highRiskTerms then HIGH
      else if list_ex (\<lambda>t. str_includes analysisLower t) lowRiskTerms then LOW
      else MEDIUM)"

section \<open>\<^verbatim>\<open>TradingBot\<close>\<close>

text \<open>The bot's fields. The times are milliseconds since the epoch, \<open>lastTrade\<close> is
  \<^verbatim>\<open>null\<close> until a trade has gone through.\<close>

record TradingBot =
  aptosAI :: AptosAI
  strategy :: string
  isRunning :: bool
  lastTrade :: "int option"
  minTradeInterval :: int

text \<open>\<^verbatim>\<open>config.minTradeInterval || 5 * 60 * 1000\<close>: absent and 0 both give the default.\<close>

definition TradingBot_constructor ::
  "world \<Rightarrow> string \<Rightarrow> string \<Rightarrow> string \<Rightarrow> string \<Rightarrow> int option \<Rightarrow> error + TradingBot" where
  "TradingBot_constructor w nodeUrl privateKey openaiKey strategyName configInterval =
     (case AptosAI_constructor w nodeUrl (Some privateKey) None of
        Inl e \<Rightarrow> Inl e
      | Inr a \<Rightarrow>
          (case initializePlugins w a of
             Inl e \<Rightarrow> Inl e
           | Inr a' \<Rightarrow>
               Inr \<lparr>aptosAI = a', strategy = strategyName, isRunning = False,
                    lastTrade = None,
                    minTradeInterval =
                      (case configInterval of
                         None \<Rightarrow> 5 * 60 * 1000
                       | Some n \<Rightarrow> if n = 0 then 5 * 60 * 1000 else n)\<rparr>))"

definition getMarketData :: "world \<Rightarrow> marketData io" where
  "getMarketData w =
     io_catch MarketDataFailed
       (io_bind (io_both (io_request FetchPrices (fetchPrices w))
                   (io_both (io_request FetchVolumes (fetchVolumes w))
                            (io_request FetchLiquidity (fetchLiquidity w))))
          (\<lambda>(p, v, l).
             io_return \<lparr>prices = p, volumes = v, liquidityDepth = l,
                        timestamp = date_market w\<rparr>))"

definition validateTrade :: "world \<Rightarrow> TradingBot \<Rightarrow> tradeIntent option \<Rightarrow> unit io" where
  "validateTrade w this tradeArg =
     (case tradeArg of
        None \<Rightarrow> io_throw JsTypeError
      | Some tr \<Rightarrow>
          io_bind (getAccountBalance w (TradingBot.aptosAI this) (getAddress w)
                     (Some (fromToken tr))) (\<lambda>balance.
          io_bind (io_lift (BigInt balance)) (\<lambda>b.
          io_bind (io_lift (BigInt (amount tr))) (\<lambda>a.
          if b < a then io_throw InsufficientBalance
          else
            io_bind (executePluginAction w (TradingBot.aptosAI this) ''liquidityPool''
                       ''calculateSwap''
                       (JObj [(''fromToken'', JStr (fromToken tr)),
                              (''toToken'', JStr (toToken tr)),
                              (''amount'', amount tr)])) (\<lambda>quote.
            io_bind (io_lift (js_get quote ''priceImpact'')) (\<lambda>impact.
            if priceImpactAboveOne w impact then io_throw PriceImpactTooHigh
            else io_return ()))))))"

definition analyzeMarket :: "world \<Rightarrow> TradingBot \<Rightarrow> marketData \<Rightarrow> tradingDecision io" where
  "analyzeMarket w this md =
     io_catch MarketAnalysisFailed
       (io_bind (io_request (ChatCompletion (MarketPrompt (strategy this) md))
                   (chat_completion w (MarketPrompt (strategy this) md))) (\<lambda>content.
        io_bind (io_lift (case parseTradeDecision w content of
                            Inl m \<Rightarrow> Inl (External m)
                          | Inr d \<Rightarrow> Inr d)) (\<lambda>decision.
        if shouldTrade decision
        then io_bind (validateTrade w this (trade decision)) (\<lambda>u. io_return decision)
        else io_return decision)))"

definition executeTrade :: "world \<Rightarrow> TradingBot \<Rightarrow> tradeIntent option \<Rightarrow> jsval io" where
  "executeTrade w this tradeArg =
     io_catch TradeExecutionFailed
       (case tradeArg of
          None \<Rightarrow> io_throw JsTypeError
        | Some tr \<Rightarrow>
            submitTransaction w (TradingBot.aptosAI this)
              \<lparr>function_id = protocol tr @ ''::router::swap'',
               type_arguments = [fromToken tr, toToken tr],
               arguments = [amount tr, minOutput tr]\<rparr>)"

text \<open>One cycle. The outcome is the bot after the cycle; a cycle that fails leaves the bot
  as it was.\<close>

definition monitorAndTrade :: "world \<Rightarrow> TradingBot \<Rightarrow> TradingBot io" where
  "monitorAndTrade w this =
     io_catch TradingCycleFailed
       (if (case lastTrade this of
              None \<Rightarrow> False
            | Some t \<Rightarrow> date_now w - t < minTradeInterval this)
        then io_return this
        else
          io_bind (getMarketData w) (\<lambda>md.
          io_bind (analyzeMarket w this md) (\<lambda>decision.
          if shouldTrade decision then
            io_bind (executeTrade w this (trade decision)) (\<lambda>txHash.
            (Inr (this\<lparr>lastTrade := Some (date_trade w)\<rparr>),
             [EmitTrade txHash (trade decision) (reasoning decision)]))
          else io_return this)))"

section \<open>Sample worlds and objects\<close>

text \<open>A node that answers, an account with a liquidity position, an empty position and a
  coin store of 50 units, and a decision to trade 100 of that coin.\<close>

definition demoAccount :: aptosAccount where
  "demoAccount = \<lparr>privateKeyHex = ''a1b2c3'', accountAddress = ''0xabc''\<rparr>"

definition demoResources :: "resource list" where
  "demoResources =
     [\<lparr>type = ''0x1::LiquidityPool::LP'', data = Some [(''value'', JStr ''100'')]\<rparr>,
      \<lparr>type = ''0x1::Coin'', data = Some []\<rparr>]"

text \<open>A portfolio: a pool share worth 100, a coin that is no DeFi position, a stake whose
  data has no value, a farm with no data at all, and a farm worth 250.\<close>

definition portfolioResources :: "resource list" where
  "portfolioResources =
     [\<lparr>type = ''0x1::LiquidityPool::LP'', data = Some [(''value'', JStr ''100'')]\<rparr>,
      \<lparr>type = ''0x1::Coin'', data = Some [(''value'', JStr ''7'')]\<rparr>,
      \<lparr>type = ''0x1::Stake::Pool'', data = Some [(''owner'', JStr ''0xabc'')]\<rparr>,
      \<lparr>type = ''0x1::Farm::Plot'', data = None\<rparr>,
      \<lparr>type = ''0x1::Farm::Plot'', data = Some [(''value'', JStr ''250'')]\<rparr>]"

definition walletResources :: "resource list" where
  "walletResources =
     demoResources @
     [\<lparr>type = ''0x1::aptos_coin::AptosCoin'',
       data = Some [(''coin'', JObj [(''value'', JStr ''50'')])]\<rparr>]"

definition demoTrade :: tradeIntent where
  "demoTrade =
     \<lparr>protocol = ''0x1'', fromToken = ''0x1::aptos_coin::AptosCoin'',
      toToken = ''0x1::usdc::USDC'', amount = JStr ''100'', minOutput = JStr ''95''\<rparr>"

definition demoDecision :: tradingDecision where
  "demoDecision = \<lparr>shouldTrade = True, trade = Some demoTrade, reasoning = ''momentum''\<rparr>"

definition demoWorld :: world where
  "demoWorld =
     \<lparr>new_AptosAccount = (\<lambda>k. Inr \<lparr>privateKeyHex = k, accountAddress = ''0xabc''\<rparr>),
      client_getAccountResources = (\<lambda>a. Inr walletResources),
      client_getAccountTransactions = (\<lambda>a. Inr (JArr [])),
      client_generateTransaction = (\<lambda>a p. Inr (JStr ''txn'')),
      client_signTransaction = (\<lambda>a t. Inr ''signed''),
      client_submitTransaction = (\<lambda>s. Inr (JStr ''0xhash'')),
      chat_completion = (\<lambda>r. Inr ''advice''),
      fetchPrices = Inr (JObj []),
      fetchVolumes = Inr (JObj []),
      fetchLiquidity = Inr (JObj []),
      parseTradeDecision = (\<lambda>s. Inr demoDecision),
      priceImpactAboveOne = (\<lambda>v. False),
      getAddress = ''0xabc'',
      getClient = Inr ''https://node'',
      date_now = 1700000000000,
      date_market = 1700000000100,
      date_trade = 1700000000900\<rparr>"

text \<open>The world whose node holds the portfolio above.\<close>

definition portfolioWorld :: world where
  "portfolioWorld = demoWorld\<lparr>client_getAccountResources := (\<lambda>a. Inr portfolioResources)\<rparr>"

text \<open>The same world with a node that cannot be reached.\<close>

definition offlineWorld :: world where
  "offlineWorld = demoWorld\<lparr>client_getAccountResources := (\<lambda>a. Inl ''network error'')\<rparr>"

text \<open>What the constructor gives for the key \<^verbatim>\<open>a1b2c3\<close>, and for the empty key.\<close>

definition freshAI :: AptosAI where
  "freshAI =
     \<lparr>client = ''https://node'', account = Some demoAccount, openai = None,
      plugins = Map.empty\<rparr>"

definition keylessAI :: AptosAI where
  "keylessAI =
     \<lparr>client = ''https://node'', account = None, openai = None, plugins = Map.empty\<rparr>"

definition demoAI :: AptosAI where
  "demoAI = foldl (\<lambda>a (n, p). registerPlugin a n p) freshAI [(''liquidityPool'', LiquidityPoolPlugin)]"

definition demoPayload :: payload where
  "demoPayload =
     \<lparr>function_id = ''0x1::router::swap'',
      type_arguments = [''0x1::aptos_coin::AptosCoin'', ''0x1::usdc::USDC''],
      arguments = [JStr ''100'', JStr ''95'']\<rparr>"

text \<open>The bot as its constructor builds it with no configuration, and the same bot running
  with a last trade 5 seconds before \<open>date_now demoWorld\<close>.\<close>

definition idleBot :: TradingBot where
  "idleBot =
     \<lparr>aptosAI = demoAI, strategy = ''momentum'', isRunning = False,
      lastTrade = None, minTradeInterval = 300000\<rparr>"

definition demoBot :: TradingBot where
  "demoBot = idleBot\<lparr>isRunning := True, lastTrade := Some 1699999995000\<rparr>"

text \<open>The agent as its constructor builds it, and one whose \<^verbatim>\<open>liquidityPool\<close> plugin
  raises on every action.\<close>

definition demoAgent :: DeFiAdvisorAgent where
  "demoAgent = \<lparr>DeFiAdvisorAgent.aptosAI = registerPlugin keylessAI ''liquidityPool'' LiquidityPoolPlugin\<rparr>"

definition failingPlugin :: plugin where
  "failingPlugin = OtherPlugin (\<lambda>action params. Inl ''pool offline'')"

definition failingAgent :: DeFiAdvisorAgent where
  "failingAgent =
     \<lparr>DeFiAdvisorAgent.aptosAI = registerPlugin keylessAI ''liquidityPool'' failingPlugin\<rparr>"

text \<open>Quotes with an \<^verbatim>\<open>outputAmount\<close>: 900 on the first exchange, 950 elsewhere.\<close>

definition demoQuote :: "string \<Rightarrow> jsval" where
  "demoQuote dex =
     JObj [(''outputAmount'', JStr (if dex = ''pancake'' then ''900'' else ''950'')),
           (''priceImpact'', JStr ''0.1%''), (''dex'', JStr dex)]"


definition demoQuotes :: "jsval list" where
  "demoQuotes = [demoQuote ''pancake'', demoQuote ''liquidswap'', demoQuote ''thala'']"

text \<open>The integer an \<^verbatim>\<open>outputAmount\<close> stands for, 0 where it stands for none.\<close>

definition amountValue :: "jsval \<Rightarrow> int" where
  "amountValue q = (case outputAmountOf q of Inl e \<Rightarrow> 0 | Inr n \<Rightarrow> n)"

section \<open>Lemmas about the effect log\<close>

lemma io_bind_Inl: "io_bind (Inl e, t) f = (Inl e, t)"
  by (simp add: io_bind_def)

lemma io_bind_Inr: "io_bind (Inr x, t) f = (fst (f x), t @ snd (f x))"
  by (simp add: io_bind_def split: prod.splits)

lemma io_catch_Inl: "io_catch wrap (Inl e, t) = (Inl (wrap e), t)"
  by (simp add: io_catch_def)

lemma io_catch_Inr: "io_catch wrap (Inr x, t) = (Inr x, t)"
  by (simp add: io_catch_def)

lemma io_request_Inl: "io_request ev (Inl m) = (Inl (External m), [ev])"
  by (simp add: io_request_def)

lemma io_request_Inr: "io_request ev (Inr x) = (Inr x, [ev])"
  by (simp add: io_request_def)

lemmas io_simps = io_bind_Inl io_bind_Inr io_catch_Inl io_catch_Inr io_request_Inl io_request_Inr
  io_return_def io_throw_def io_lift_def

lemma io_bind_fst_snd:
  "io_bind m f =
     (case fst m of Inl e \<Rightarrow> (Inl e, snd m) | Inr x \<Rightarrow> (fst (f x), snd m @ snd (f x)))"
  by (cases m; cases "fst m") (auto simp: io_bind_def split: prod.splits)

lemma io_catch_snd: "snd (io_catch wrap m) = snd m"
  by (cases m; cases "fst m") (auto simp: io_catch_def)

section \<open>Strings\<close>

text \<open>\<open>str_includes s t\<close> holds exactly when \<open>t\<close> occurs in \<open>s\<close> as a contiguous run.\<close>

lemma includes_iff: "str_includes s t \<longleftrightarrow> (\<exists>p q. s = p @ t @ q)"
proof (induction s)
  case Nil
  then show ?case by simp
next
  case (Cons c cs)
  show ?case
  proof
    assume "str_includes (c # cs) t"
    then consider "take (length t) (c # cs) = t" | "str_includes cs t" by auto
    then show "\<exists>p q. c # cs = p @ t @ q"
    proof cases
      case 1
      then have "c # cs = [] @ t @ drop (length t) (c # cs)"
        by (metis append_Nil append_take_drop_id)
      then show ?thesis by blast
    next
      case 2
      then obtain p q where "cs = p @ t @ q" using Cons.IH by blast
      then have "c # cs = (c # p) @ t @ q" by simp
      then show ?thesis by blast
    qed
  next
    assume "\<exists>p q. c # cs = p @ t @ q"
    then obtain p q where pq: "c # cs = p @ t @ q" by blast
    show "str_includes (c # cs) t"
    proof (cases p)
      case Nil
      with pq have "take (length t) (c # cs) = t" by simp
      then show ?thesis by simp
    next
      case (Cons a p')
      with pq have "cs = p' @ t @ q" by simp
      then show ?thesis using Cons.IH by auto
    qed
  qed
qed

section \<open>The chain facade\<close>

lemma getAccountBalance_events:
  "snd (getAccountBalance w this address ct) = [GetAccountResources (JStr address)]"
  by (cases "client_getAccountResources w (JStr address)")
     (simp_all add: getAccountBalance_def getAccountResources_def Let_def io_simps)

text \<open>
  C1. \<^verbatim>\<open>getAccountBalance\<close> looks for the first fetched resource whose type equals the
  coin type asked for (the default one when none is given) and answers with its
  \<^verbatim>\<open>data.coin.value\<close>, or with the string "0" when that is missing or falsy; in particular
  it answers "0" when no resource has that type. It does this only when the fetch succeeds:
  an error of the fetch is not turned into "0", it is the outcome of the call.
\<close>

theorem getAccountBalance_zero_or_error:
  assumes "coinType = (case coinTypeArg of None \<Rightarrow> defaultCoinType | Some c \<Rightarrow> c)"
  shows "(\<forall>rs. client_getAccountResources w (JStr address) = Inr rs \<longrightarrow>
            fst (getAccountBalance w this address coinTypeArg) =
              Inr (js_or (coinValue (find (\<lambda>r. type r = coinType) rs)) (JStr ''0''))
            \<and> ((\<forall>r \<in> set rs. type r \<noteq> coinType) \<longrightarrow>
                  fst (getAccountBalance w this address coinTypeArg) = Inr (JStr ''0'')))
       \<and> (\<forall>m. client_getAccountResources w (JStr address) = Inl m \<longrightarrow>
              fst (getAccountBalance w this address coinTypeArg) = Inl (External m))"
proof -
  have none: "find (\<lambda>r. type r = coinType) rs = None"
    if "\<forall>r \<in> set rs. type r \<noteq> coinType" for rs :: "resource list"
    using that by (simp add: find_None_iff)
  show ?thesis
    unfolding assms[symmetric] getAccountBalance_def getAccountResources_def Let_def
    by (auto simp: assms[symmetric] io_simps none coinValue_def js_or_def)
qed

theorem getAccountBalance_zero_or_error_witness:
  "client_getAccountResources demoWorld (JStr ''0xabc'') = Inr walletResources
   \<and> fst (getAccountBalance demoWorld demoAI ''0xabc'' (Some ''0x1::usdc::USDC'')) = Inr (JStr ''0'')
   \<and> fst (getAccountBalance demoWorld demoAI ''0xabc'' None) = Inr (JStr ''50'')
   \<and> client_getAccountResources offlineWorld (JStr ''0xabc'') = Inl ''network error''
   \<and> fst (getAccountBalance offlineWorld demoAI ''0xabc'' (Some ''0x1::usdc::USDC'')) =
        Inl (External ''network error'')"
proof -
  have on: "client_getAccountResources demoWorld (JStr ''0xabc'') = Inr walletResources"
    by (simp add: demoWorld_def)
  have off: "client_getAccountResources offlineWorld (JStr ''0xabc'') = Inl ''network error''"
    by (simp add: offlineWorld_def)
  have absent: "\<forall>r \<in> set walletResources. type r \<noteq> ''0x1::usdc::USDC''"
    by (simp add: walletResources_def demoResources_def)
  have found: "js_or (coinValue (find (\<lambda>r. type r = defaultCoinType) walletResources)) (JStr ''0'')
                 = JStr ''50''"
    by (simp add: walletResources_def demoResources_def defaultCoinType_def coinValue_def
          obj_get_def js_or_def)
  have e1: "''0x1::usdc::USDC'' =
              (case Some ''0x1::usdc::USDC'' of None \<Rightarrow> defaultCoinType | Some c \<Rightarrow> c)"
    by simp
  have e2: "defaultCoinType = (case None of None \<Rightarrow> defaultCoinType | Some c \<Rightarrow> c)"
    by simp
  note a = getAccountBalance_zero_or_error [OF e1, of demoWorld "''0xabc''" demoAI]
  note b = getAccountBalance_zero_or_error [OF e2, of demoWorld "''0xabc''" demoAI]
  note c = getAccountBalance_zero_or_error [OF e1, of offlineWorld "''0xabc''" demoAI]
  from a on absent
  have r1: "fst (getAccountBalance demoWorld demoAI ''0xabc'' (Some ''0x1::usdc::USDC'')) = Inr (JStr ''0'')"
    by blast
  from b on
  have "fst (getAccountBalance demoWorld demoAI ''0xabc'' None) =
          Inr (js_or (coinValue (find (\<lambda>r. type r = defaultCoinType) walletResources)) (JStr ''0''))"
    by blast
  then have r2: "fst (getAccountBalance demoWorld demoAI ''0xabc'' None) = Inr (JStr ''50'')"
    unfolding found .
  from c off
  have r3: "fst (getAccountBalance offlineWorld demoAI ''0xabc'' (Some ''0x1::usdc::USDC'')) =
              Inl (External ''network error'')"
    by blast
  from on off r1 r2 r3 show ?thesis by simp
qed

text \<open>The operation can fail: when the node cannot be reached, the error of the fetch comes
  back, not a balance of "0".\<close>

theorem getAccountBalance_masks_errors_counterexample:
  "getAccountBalance offlineWorld demoAI ''0xabc'' None =
     (Inl (External ''network error''), [GetAccountResources (JStr ''0xabc'')])"
  by (simp add: getAccountBalance_def getAccountResources_def Let_def io_simps offlineWorld_def)

subsection \<open>Signing and submitting\<close>






text \<open>An empty key is no key: the constructor leaves the account unset, and the submission
  fails as uninitialized.\<close>

lemma submitTransaction_empty_key:
  "AptosAI_constructor demoWorld ''https://node'' (Some '''') None = Inr keylessAI
   \<and> submitTransaction demoWorld keylessAI demoPayload = (Inl AccountNotInitialized, [])"
  by (simp add: AptosAI_constructor_def truthy_key_def keylessAI_def submitTransaction_def io_simps)

section \<open>The plugin registry\<close>

lemma plugins_foldl_register:
  "plugins (foldl (\<lambda>a (n, p). registerPlugin a n p) a0 regs) = plugins a0 ++ map_of (rev regs)"
proof (induction regs arbitrary: a0)
  case Nil
  then show ?case by simp
next
  case (Cons r regs)
  obtain n p where r: "r = (n, p)" by (cases r)
  have "plugins (registerPlugin a0 n p) ++ map_of (rev regs)
          = plugins a0 ++ map_of (rev regs @ [(n, p)])"
    by (rule ext) (auto simp: registerPlugin_def map_add_def split: option.splits)
  then show ?case using Cons.IH[of "registerPlugin a0 n p"] r by simp
qed

lemma constructor_plugins:
  "AptosAI_constructor w nodeUrl privateKey openaiKey = Inr a0 \<Longrightarrow> plugins a0 = Map.empty"
  by (auto simp: AptosAI_constructor_def split: option.splits sum.splits)

lemma js_get_error: "js_get v k = Inl e \<Longrightarrow> e = JsTypeError"
  by (cases v) simp_all

lemma getPoolInfo_never_not_found: "fst (getPoolInfo w a) \<noteq> Inl (PluginNotFound n)"
  by (cases "client_getAccountResources w a") (simp_all add: getPoolInfo_def io_simps)

lemma execute_never_not_found:
  "fst (execute w p action params) \<noteq> Inl (PluginNotFound n)"
proof (cases p)
  case LiquidityPoolPlugin
  show ?thesis
    unfolding LiquidityPoolPlugin
    using getPoolInfo_never_not_found[of w _ n]
    by (cases "js_get params ''poolAddress''"; cases "js_get params ''amount''")
       (auto simp: LiquidityPoolPlugin_execute_def io_simps dest: js_get_error)
next
  case (OtherPlugin f)
  then show ?thesis by (cases "f action params") (simp_all add: io_simps)
qed

text \<open>
  C4. On a facade built by its constructor and any sequence of registrations:
  \<^verbatim>\<open>executePluginAction\<close> fails with "Plugin ... not found", without calling anything,
  whenever the name is none of the registered ones, whatever the action and the parameters;
  it never fails with not-found for a registered name; and when the plugin under the name
  is a \<^verbatim>\<open>LiquidityPoolPlugin\<close> and the action is neither \<^verbatim>\<open>getPoolInfo\<close> nor
  \<^verbatim>\<open>calculateSwap\<close>, it fails with "Unknown action: ...".
\<close>

theorem executePluginAction_failures:
  assumes "AptosAI_constructor w nodeUrl privateKey openaiKey = Inr a0"
    and "this = foldl (\<lambda>a (n, p). registerPlugin a n p) a0 regs"
  shows "(pluginName \<notin> fst ` set regs \<longrightarrow>
            executePluginAction w this pluginName action params =
              (Inl (PluginNotFound pluginName), []))
       \<and> (pluginName \<in> fst ` set regs \<longrightarrow>
            (\<forall>n. fst (executePluginAction w this pluginName action params)
                   \<noteq> Inl (PluginNotFound n)))
       \<and> (plugins this pluginName = Some LiquidityPoolPlugin
            \<and> action \<noteq> ''getPoolInfo'' \<and> action \<noteq> ''calculateSwap'' \<longrightarrow>
            executePluginAction w this pluginName action params =
              (Inl (UnknownAction action), [PluginExecute pluginName action params]))"
proof -
  have pl: "plugins this = map_of (rev regs)"
    using assms plugins_foldl_register[of a0 regs] constructor_plugins[OF assms(1)] by simp
  have dom: "plugins this pluginName = None \<longleftrightarrow> pluginName \<notin> fst ` set regs"
    unfolding pl by (simp add: map_of_eq_None_iff)
  have a: "pluginName \<notin> fst ` set regs \<longrightarrow>
            executePluginAction w this pluginName action params
              = (Inl (PluginNotFound pluginName), [])"
    using dom by (auto simp: executePluginAction_def io_simps)
  have b: "pluginName \<in> fst ` set regs \<longrightarrow>
            (\<forall>n. fst (executePluginAction w this pluginName action params)
                   \<noteq> Inl (PluginNotFound n))"
  proof (intro impI allI)
    fix n
    assume "pluginName \<in> fst ` set regs"
    then obtain p where p: "plugins this pluginName = Some p" using dom by auto
    show "fst (executePluginAction w this pluginName action params) \<noteq> Inl (PluginNotFound n)"
      using p execute_never_not_found[of w p action params n]
      by (simp add: executePluginAction_def io_log_def)
  qed
  have c: "plugins this pluginName = Some LiquidityPoolPlugin
            \<and> action \<noteq> ''getPoolInfo'' \<and> action \<noteq> ''calculateSwap'' \<longrightarrow>
            executePluginAction w this pluginName action params =
              (Inl (UnknownAction action), [PluginExecute pluginName action params])"
    by (simp add: executePluginAction_def LiquidityPoolPlugin_execute_def io_log_def io_simps)
  from a b c show ?thesis by blast
qed

theorem executePluginAction_failures_witness:
  "AptosAI_constructor demoWorld ''https://node'' (Some ''a1b2c3'') None = Inr freshAI
   \<and> plugins demoAI ''liquidityPool'' = Some LiquidityPoolPlugin
   \<and> executePluginAction demoWorld demoAI ''liquidityPool'' ''unknownAction'' (JObj []) =
        (Inl (UnknownAction ''unknownAction''),
         [PluginExecute ''liquidityPool'' ''unknownAction'' (JObj [])])
   \<and> executePluginAction demoWorld demoAI ''staking'' ''calculateSwap'' (JObj []) =
        (Inl (PluginNotFound ''staking''), [])"
proof -
  have c1: "AptosAI_constructor demoWorld ''https://node'' (Some ''a1b2c3'') None = Inr freshAI"
    by (simp add: AptosAI_constructor_def truthy_key_def demoWorld_def freshAI_def demoAccount_def)
  have reg: "plugins demoAI ''liquidityPool'' = Some LiquidityPoolPlugin"
    by (simp add: demoAI_def registerPlugin_def)
  note t1 = executePluginAction_failures[OF c1 demoAI_def,
              of "''liquidityPool''" "''unknownAction''" "JObj []"]
  note t2 = executePluginAction_failures[OF c1 demoAI_def,
              of "''staking''" "''calculateSwap''" "JObj []"]
  from t1 reg
  have r1: "executePluginAction demoWorld demoAI ''liquidityPool'' ''unknownAction'' (JObj []) =
        (Inl (UnknownAction ''unknownAction''),
         [PluginExecute ''liquidityPool'' ''unknownAction'' (JObj [])])"
    by simp
  from t2
  have r2: "executePluginAction demoWorld demoAI ''staking'' ''calculateSwap'' (JObj []) =
        (Inl (PluginNotFound ''staking''), [])"
    by simp
  from c1 reg r1 r2 show ?thesis by simp
qed

section \<open>The portfolio aggregator\<close>

text \<open>
  C3. The filter for DeFi positions keeps, in their order, exactly the resources whose type
  contains one of "LiquidityPool", "Stake", "Farm" as a contiguous run of characters, and
  drops every other resource; the positions that \<^verbatim>\<open>analyzePortfolio\<close> returns are this
  filter of the fetched resources.
\<close>

theorem defiPositions_filter:
  "defiPositions rs =
     filter (\<lambda>r. \<exists>m \<in> set [''LiquidityPool'', ''Stake'', ''Farm''].
                   \<exists>p q. type r = p @ m @ q) rs
   \<and> (\<forall>res t. client_getAccountResources w (JStr address) = Inr rs
         \<and> analyzePortfolio w this address = (Inr res, t) \<longrightarrow>
         positions res = defiPositions rs)"
proof -
  have a: "defiPositions rs =
     filter (\<lambda>r. \<exists>m \<in> set [''LiquidityPool'', ''Stake'', ''Farm''].
                   \<exists>p q. type r = p @ m @ q) rs"
    by (simp add: defiPositions_def includes_iff)
  have b: "positions res = defiPositions rs"
    if rs: "client_getAccountResources w (JStr address) = Inr rs"
      and ok: "analyzePortfolio w this address = (Inr res, t)" for res t
  proof -
    obtain txs where txs: "client_getAccountTransactions w address = Inr txs"
      using ok rs
      by (cases "client_getAccountTransactions w address")
         (auto simp: analyzePortfolio_def io_both_def getAccountResources_def
            getAccountTransactions_def io_simps)
    obtain tv where tv: "totalValueLoop 0 (defiPositions rs) = Inr tv"
      using ok rs txs
      by (cases "totalValueLoop 0 (defiPositions rs)")
         (auto simp: analyzePortfolio_def io_both_def getAccountResources_def
            getAccountTransactions_def io_simps Let_def)
    obtain pat where pat: "chat_completion w (TxPatternsPrompt txs) = Inr pat"
      using ok rs txs tv
      by (cases "chat_completion w (TxPatternsPrompt txs)")
         (auto simp: analyzePortfolio_def io_both_def getAccountResources_def
            getAccountTransactions_def io_simps Let_def analyzeTxPatterns_def)
    show ?thesis
      using ok rs txs tv pat
      by (cases "chat_completion w (AdvicePrompt (defiPositions rs) pat tv)")
         (auto simp: analyzePortfolio_def io_both_def getAccountResources_def
            getAccountTransactions_def io_simps Let_def analyzeTxPatterns_def generateAdvice_def)
  qed
  from a b show ?thesis by blast
qed

theorem defiPositions_filter_witness:
  "defiPositions demoResources =
     [\<lparr>type = ''0x1::LiquidityPool::LP'', data = Some [(''value'', JStr ''100'')]\<rparr>]
   \<and> client_getAccountResources (demoWorld\<lparr>client_getAccountResources := (\<lambda>a. Inr demoResources)\<rparr>)
        (JStr ''0xabc'') = Inr demoResources
   \<and> fst (analyzePortfolio (demoWorld\<lparr>client_getAccountResources := (\<lambda>a. Inr demoResources)\<rparr>)
            demoAgent ''0xabc'') =
        Inr \<lparr>positions =
               [\<lparr>type = ''0x1::LiquidityPool::LP'', data = Some [(''value'', JStr ''100'')]\<rparr>],
             history = ''advice'', advice = ''advice''\<rparr>"
proof -
  let ?w = "demoWorld\<lparr>client_getAccountResources := (\<lambda>a. Inr demoResources)\<rparr>"
  note t = defiPositions_filter[of demoResources ?w "''0xabc''" demoAgent]
  from t have "defiPositions demoResources =
     filter (\<lambda>r. \<exists>m \<in> set [''LiquidityPool'', ''Stake'', ''Farm''].
                   \<exists>p q. type r = p @ m @ q) demoResources"
    by (rule conjunct1)
  then have f: "defiPositions demoResources =
     [\<lparr>type = ''0x1::LiquidityPool::LP'', data = Some [(''value'', JStr ''100'')]\<rparr>]"
    by (simp add: includes_iff[symmetric] demoResources_def)
  have r: "client_getAccountResources ?w (JStr ''0xabc'') = Inr demoResources" by simp
  have v100: "BigInt (JStr ''100'') = Inr 100" by code_simp
  have tv: "totalValueLoop 0 (defiPositions demoResources) = Inr 100"
    unfolding f by (simp add: hasValueField_def valueField_def obj_get_def v100 del: BigInt.simps)
  have run: "analyzePortfolio ?w demoAgent ''0xabc'' =
        (Inr \<lparr>positions = defiPositions demoResources, history = ''advice'', advice = ''advice''\<rparr>,
         [GetAccountResources (JStr ''0xabc''), GetAccountTransactions ''0xabc'',
          ChatCompletion (TxPatternsPrompt (JArr [])),
          ChatCompletion (AdvicePrompt (defiPositions demoResources) ''advice'' 100)])"
    by (simp add: analyzePortfolio_def io_both_def getAccountResources_def
          getAccountTransactions_def io_simps Let_def analyzeTxPatterns_def generateAdvice_def
          tv demoWorld_def)
  from t r run have "positions \<lparr>positions = defiPositions demoResources, history = ''advice'',
      advice = ''advice''\<rparr> = defiPositions demoResources"
    by blast
  with f r run show ?thesis by simp
qed

lemma totalValueLoop_filter:
  "totalValueLoop acc ps = totalValueLoop acc (filter hasValueField ps)"
  by (induction ps arbitrary: acc) (simp_all split: sum.splits)

lemma totalValueLoop_sum:
  "\<forall>p \<in> set ps. hasValueField p \<longrightarrow> BigInt (valueField p) = Inr (v p) \<Longrightarrow>
   totalValueLoop acc ps = Inr (acc + sum_list (map v (filter hasValueField ps)))"
  by (induction ps arbitrary: acc) simp_all

lemma analyzePortfolio_after_fetch:
  assumes "client_getAccountResources w (JStr address) = Inr rs"
    and "client_getAccountTransactions w address = Inr txs"
  shows "analyzePortfolio w this address =
           io_catch PortfolioAnalysisFailed
             (io_bind (Inr (rs, txs), [GetAccountResources (JStr address), GetAccountTransactions address])
                (\<lambda>(resources, transactions).
                   let ps = defiPositions resources in
                   io_bind (io_lift (totalValueLoop 0 ps)) (\<lambda>totalValue.
                   io_bind (analyzeTxPatterns w transactions) (\<lambda>txPatterns.
                   io_bind (generateAdvice w ps txPatterns totalValue) (\<lambda>adv.
                   io_return \<lparr>positions = ps, history = txPatterns, advice = adv\<rparr>)))))"
  using assms
  by (simp add: analyzePortfolio_def io_both_def getAccountResources_def
        getAccountTransactions_def io_simps)

lemma generateAdvice_events:
  "snd (generateAdvice w ps pat tot) = [ChatCompletion (AdvicePrompt ps pat tot)]"
  by (cases "chat_completion w (AdvicePrompt ps pat tot)")
     (simp_all add: generateAdvice_def io_simps)

lemma analyzePortfolio_loop_ok:
  assumes "client_getAccountResources w (JStr address) = Inr rs"
    and "client_getAccountTransactions w address = Inr txs"
    and "chat_completion w (TxPatternsPrompt txs) = Inr pat"
    and "totalValueLoop 0 (defiPositions rs) = Inr tot"
  shows "analyzePortfolio w this address =
           ((case fst (generateAdvice w (defiPositions rs) pat tot) of
               Inl e \<Rightarrow> Inl (PortfolioAnalysisFailed e)
             | Inr adv \<Rightarrow> Inr \<lparr>positions = defiPositions rs, history = pat, advice = adv\<rparr>),
            [GetAccountResources (JStr address), GetAccountTransactions address,
             ChatCompletion (TxPatternsPrompt txs),
             ChatCompletion (AdvicePrompt (defiPositions rs) pat tot)])"
  unfolding analyzePortfolio_after_fetch[OF assms(1,2)]
  using assms(3,4)
  by (cases "chat_completion w (AdvicePrompt (defiPositions rs) pat tot)")
     (simp_all add: io_simps Let_def analyzeTxPatterns_def generateAdvice_def)

lemma analyzePortfolio_loop_fails:
  assumes "client_getAccountResources w (JStr address) = Inr rs"
    and "client_getAccountTransactions w address = Inr txs"
    and "totalValueLoop 0 (defiPositions rs) = Inl e"
  shows "analyzePortfolio w this address =
           (Inl (PortfolioAnalysisFailed e),
            [GetAccountResources (JStr address), GetAccountTransactions address])"
  unfolding analyzePortfolio_after_fetch[OF assms(1,2)]
  using assms(3) by (simp add: io_simps Let_def)

text \<open>
  C9. In \<^verbatim>\<open>analyzePortfolio\<close> the total value is the loop run over the filtered positions,
  and the loop takes only the positions that have a data object with a \<^verbatim>\<open>value\<close> field:
  the positions without one change nothing, neither the sum nor whether the loop fails.
  When the resources and the transactions arrive, the transaction patterns are answered and
  the value of every filtered position that has one converts to an integer (\<open>v\<close> gives it),
  the operation does not fail in the loop: it asks for the advice with the exact sum of those
  integers and returns what that request gives. The operation fails in the loop only when
  the loop itself fails, that is on a value that converts to no integer.
\<close>

theorem analyzePortfolio_total_value:
  "totalValueLoop 0 ps = totalValueLoop 0 (filter hasValueField ps)
   \<and> ((\<forall>p \<in> set ps. hasValueField p \<longrightarrow> BigInt (valueField p) = Inr (v p)) \<longrightarrow>
        totalValueLoop 0 ps = Inr (sum_list (map v (filter hasValueField ps))))
   \<and> (client_getAccountResources w (JStr address) = Inr rs
        \<and> client_getAccountTransactions w address = Inr txs
        \<and> chat_completion w (TxPatternsPrompt txs) = Inr pat
        \<and> (\<forall>p \<in> set (defiPositions rs). hasValueField p \<longrightarrow> BigInt (valueField p) = Inr (v p))
        \<longrightarrow>
        analyzePortfolio w this address =
          ((case fst (generateAdvice w (defiPositions rs) pat
                        (sum_list (map v (filter hasValueField (defiPositions rs))))) of
              Inl e \<Rightarrow> Inl (PortfolioAnalysisFailed e)
            | Inr adv \<Rightarrow> Inr \<lparr>positions = defiPositions rs, history = pat, advice = adv\<rparr>),
           [GetAccountResources (JStr address), GetAccountTransactions address,
            ChatCompletion (TxPatternsPrompt txs),
            ChatCompletion
              (AdvicePrompt (defiPositions rs) pat
                 (sum_list (map v (filter hasValueField (defiPositions rs)))))]))
   \<and> (\<forall>e. client_getAccountResources w (JStr address) = Inr rs
        \<and> client_getAccountTransactions w address = Inr txs
        \<and> totalValueLoop 0 (defiPositions rs) = Inl e
        \<longrightarrow>
        analyzePortfolio w this address =
          (Inl (PortfolioAnalysisFailed e),
           [GetAccountResources (JStr address), GetAccountTransactions address]))"
proof -
  have a: "totalValueLoop 0 ps = totalValueLoop 0 (filter hasValueField ps)"
    by (rule totalValueLoop_filter)
  have b: "(\<forall>p \<in> set ps. hasValueField p \<longrightarrow> BigInt (valueField p) = Inr (v p)) \<longrightarrow>
        totalValueLoop 0 ps = Inr (sum_list (map v (filter hasValueField ps)))"
    using totalValueLoop_sum[of ps v 0] by simp
  have c: "analyzePortfolio w this address =
          ((case fst (generateAdvice w (defiPositions rs) pat
                        (sum_list (map v (filter hasValueField (defiPositions rs))))) of
              Inl e \<Rightarrow> Inl (PortfolioAnalysisFailed e)
            | Inr adv \<Rightarrow> Inr \<lparr>positions = defiPositions rs, history = pat, advice = adv\<rparr>),
           [GetAccountResources (JStr address), GetAccountTransactions address,
            ChatCompletion (TxPatternsPrompt txs),
            ChatCompletion
              (AdvicePrompt (defiPositions rs) pat
                 (sum_list (map v (filter hasValueField (defiPositions rs)))))])"
    if r: "client_getAccountResources w (JStr address) = Inr rs"
      and t: "client_getAccountTransactions w address = Inr txs"
      and p: "chat_completion w (TxPatternsPrompt txs) = Inr pat"
      and h: "\<forall>p \<in> set (defiPositions rs). hasValueField p \<longrightarrow> BigInt (valueField p) = Inr (v p)"
  proof -
    have "totalValueLoop 0 (defiPositions rs) =
            Inr (sum_list (map v (filter hasValueField (defiPositions rs))))"
      using totalValueLoop_sum[OF h, of 0] by simp
    from analyzePortfolio_loop_ok[OF r t p this] show ?thesis .
  qed
  have d: "\<forall>e. client_getAccountResources w (JStr address) = Inr rs
        \<and> client_getAccountTransactions w address = Inr txs
        \<and> totalValueLoop 0 (defiPositions rs) = Inl e
        \<longrightarrow>
        analyzePortfolio w this address =
          (Inl (PortfolioAnalysisFailed e),
           [GetAccountResources (JStr address), GetAccountTransactions address])"
    using analyzePortfolio_loop_fails by blast
  from a b c d show ?thesis by blast
qed

lemma portfolio_positions:
  "defiPositions portfolioResources =
     [portfolioResources ! 0, portfolioResources ! 2, portfolioResources ! 3, portfolioResources ! 4]"
  by (simp add: defiPositions_def portfolioResources_def)

lemma portfolio_values:
  "hasValueField (portfolioResources ! 0)" "BigInt (valueField (portfolioResources ! 0)) = Inr 100"
  "\<not> hasValueField (portfolioResources ! 2)"
  "\<not> hasValueField (portfolioResources ! 3)"
  "hasValueField (portfolioResources ! 4)" "BigInt (valueField (portfolioResources ! 4)) = Inr 250"
proof -
  have v100: "BigInt (JStr ''100'') = Inr 100" by code_simp
  have v250: "BigInt (JStr ''250'') = Inr 250" by code_simp
  have f0: "valueField (portfolioResources ! 0) = JStr ''100''"
    by (simp add: portfolioResources_def valueField_def obj_get_def)
  have f4: "valueField (portfolioResources ! 4) = JStr ''250''"
    by (simp add: portfolioResources_def valueField_def obj_get_def)
  show "hasValueField (portfolioResources ! 0)" "\<not> hasValueField (portfolioResources ! 2)"
    "\<not> hasValueField (portfolioResources ! 3)" "hasValueField (portfolioResources ! 4)"
    by (simp_all add: portfolioResources_def hasValueField_def)
  show "BigInt (valueField (portfolioResources ! 0)) = Inr 100" unfolding f0 by (rule v100)
  show "BigInt (valueField (portfolioResources ! 4)) = Inr 250" unfolding f4 by (rule v250)
qed

theorem analyzePortfolio_total_value_witness:
  "client_getAccountResources portfolioWorld (JStr ''0xabc'') = Inr portfolioResources
   \<and> defiPositions portfolioResources =
       [portfolioResources ! 0, portfolioResources ! 2, portfolioResources ! 3,
        portfolioResources ! 4]
   \<and> hasValueField (portfolioResources ! 0) \<and> \<not> hasValueField (portfolioResources ! 2)
   \<and> \<not> hasValueField (portfolioResources ! 3) \<and> hasValueField (portfolioResources ! 4)
   \<and> totalValueLoop 0 (defiPositions portfolioResources) = Inr 350
   \<and> analyzePortfolio portfolioWorld demoAgent ''0xabc'' =
       (Inr \<lparr>positions = defiPositions portfolioResources, history = ''advice'',
             advice = ''advice''\<rparr>,
        [GetAccountResources (JStr ''0xabc''), GetAccountTransactions ''0xabc'',
         ChatCompletion (TxPatternsPrompt (JArr [])),
         ChatCompletion (AdvicePrompt (defiPositions portfolioResources) ''advice'' 350)])"
proof -
  define v where "v = (\<lambda>p :: resource. if p = portfolioResources ! 0 then (100::int) else 250)"
  have ne: "portfolioResources ! 4 \<noteq> portfolioResources ! 0"
    by (simp add: portfolioResources_def)
  have r: "client_getAccountResources portfolioWorld (JStr ''0xabc'') = Inr portfolioResources"
    by (simp add: portfolioWorld_def)
  have t: "client_getAccountTransactions portfolioWorld ''0xabc'' = Inr (JArr [])"
    by (simp add: portfolioWorld_def demoWorld_def)
  have p: "chat_completion portfolioWorld (TxPatternsPrompt (JArr [])) = Inr ''advice''"
    by (simp add: portfolioWorld_def demoWorld_def)
  have h: "\<forall>p \<in> set (defiPositions portfolioResources).
             hasValueField p \<longrightarrow> BigInt (valueField p) = Inr (v p)"
    unfolding portfolio_positions using portfolio_values ne by (simp add: v_def)
  have flt: "filter hasValueField (defiPositions portfolioResources)
               = [portfolioResources ! 0, portfolioResources ! 4]"
    unfolding portfolio_positions using portfolio_values by simp
  have sumv: "sum_list (map v (filter hasValueField (defiPositions portfolioResources))) = 350"
    unfolding flt using ne by (simp add: v_def)
  have adv: "fst (generateAdvice portfolioWorld (defiPositions portfolioResources) ''advice'' 350)
               = Inr ''advice''"
    by (simp add: generateAdvice_def io_simps portfolioWorld_def demoWorld_def)
  note inst = analyzePortfolio_total_value
               [where ps = "defiPositions portfolioResources" and v = v and w = portfolioWorld
                  and address = "''0xabc''" and rs = portfolioResources and txs = "JArr []"
                  and pat = "''advice''" and this = demoAgent]
  from inst h have "totalValueLoop 0 (defiPositions portfolioResources) =
      Inr (sum_list (map v (filter hasValueField (defiPositions portfolioResources))))"
    by blast
  then have loop: "totalValueLoop 0 (defiPositions portfolioResources) = Inr 350"
    unfolding sumv .
  from inst r t p h have "analyzePortfolio portfolioWorld demoAgent ''0xabc'' =
          ((case fst (generateAdvice portfolioWorld (defiPositions portfolioResources) ''advice''
                        (sum_list (map v (filter hasValueField (defiPositions portfolioResources))))) of
              Inl e \<Rightarrow> Inl (PortfolioAnalysisFailed e)
            | Inr adv \<Rightarrow> Inr \<lparr>positions = defiPositions portfolioResources, history = ''advice'',
                                advice = adv\<rparr>),
           [GetAccountResources (JStr ''0xabc''), GetAccountTransactions ''0xabc'',
            ChatCompletion (TxPatternsPrompt (JArr [])),
            ChatCompletion
              (AdvicePrompt (defiPositions portfolioResources) ''advice''
                 (sum_list (map v (filter hasValueField (defiPositions portfolioResources)))))])"
    by blast
  then have run: "analyzePortfolio portfolioWorld demoAgent ''0xabc'' =
       (Inr \<lparr>positions = defiPositions portfolioResources, history = ''advice'',
             advice = ''advice''\<rparr>,
        [GetAccountResources (JStr ''0xabc''), GetAccountTransactions ''0xabc'',
         ChatCompletion (TxPatternsPrompt (JArr [])),
         ChatCompletion (AdvicePrompt (defiPositions portfolioResources) ''advice'' 350)])"
    unfolding sumv adv by simp
  from r portfolio_positions portfolio_values(1,3,4,5) loop run show ?thesis by blast
qed

subsection \<open>The best quote\<close>

lemma reduceBest_first_max:
  assumes "\<forall>q \<in> set (pre @ rest). outputAmountOf q = Inr (v q)"
    and "i < length pre" and "best = pre ! i"
    and "\<forall>q \<in> set pre. v q \<le> v best"
    and "\<forall>q \<in> set (take i pre). v q < v best"
  shows "\<exists>k < length (pre @ rest). reduceBest best rest = Inr ((pre @ rest) ! k)
           \<and> (\<forall>q \<in> set (pre @ rest). v q \<le> v ((pre @ rest) ! k))
           \<and> (\<forall>q \<in> set (take k (pre @ rest)). v q < v ((pre @ rest) ! k))"
  using assms
proof (induction rest arbitrary: pre i best)
  case Nil
  then show ?case by auto
next
  case (Cons c rest)
  have oc: "outputAmountOf c = Inr (v c)" using Cons.prems(1) by simp
  have ob: "outputAmountOf best = Inr (v best)"
    using Cons.prems(1,2,3) by (simp add: nth_mem)
  let ?pre = "pre @ [c]"
  have all': "\<forall>q \<in> set (?pre @ rest). outputAmountOf q = Inr (v q)"
    using Cons.prems(1) by simp
  show ?case
  proof (cases "v c > v best")
    case True
    have "\<exists>k < length (?pre @ rest). reduceBest c rest = Inr ((?pre @ rest) ! k)
           \<and> (\<forall>q \<in> set (?pre @ rest). v q \<le> v ((?pre @ rest) ! k))
           \<and> (\<forall>q \<in> set (take k (?pre @ rest)). v q < v ((?pre @ rest) ! k))"
    proof (rule Cons.IH[OF all', of "length pre" c])
      show "length pre < length ?pre" by simp
      show "c = ?pre ! length pre" by simp
      show "\<forall>q \<in> set ?pre. v q \<le> v c" using Cons.prems(4) True by auto
      show "\<forall>q \<in> set (take (length pre) ?pre). v q < v c" using Cons.prems(4) True by auto
    qed
    then show ?thesis using oc ob True by simp
  next
    case False
    have "\<exists>k < length (?pre @ rest). reduceBest best rest = Inr ((?pre @ rest) ! k)
           \<and> (\<forall>q \<in> set (?pre @ rest). v q \<le> v ((?pre @ rest) ! k))
           \<and> (\<forall>q \<in> set (take k (?pre @ rest)). v q < v ((?pre @ rest) ! k))"
    proof (rule Cons.IH[OF all', of i best])
      show "i < length ?pre" using Cons.prems(2) by simp
      show "best = ?pre ! i" using Cons.prems(2,3) by (simp add: nth_append)
      show "\<forall>q \<in> set ?pre. v q \<le> v best" using Cons.prems(4) False by auto
      show "\<forall>q \<in> set (take i ?pre). v q < v best" using Cons.prems(2,5) by simp
    qed
    then show ?thesis using oc ob False by simp
  qed
qed

text \<open>
  C2. For a non-empty list of quotes whose \<^verbatim>\<open>outputAmount\<close>s all convert to integers
  (\<open>v\<close> gives the integer of each), the reduction returns the quote at an index \<open>i\<close> where
  the amount is maximal over the list and strictly greater than every amount before \<open>i\<close>:
  the first quote with the greatest amount. A list of one quote gives that quote, whatever
  its amount.
\<close>

theorem bestQuote_first_maximum:
  assumes "qs \<noteq> []" and "\<forall>q \<in> set qs. outputAmountOf q = Inr (v q)"
  shows "(\<exists>i < length qs. bestQuote qs = Inr (qs ! i)
           \<and> (\<forall>q \<in> set qs. v q \<le> v (qs ! i))
           \<and> (\<forall>q \<in> set (take i qs). v q < v (qs ! i)))
       \<and> bestQuote [one] = Inr one"
proof -
  obtain q rest where qs: "qs = q # rest" using assms(1) by (cases qs) auto
  have "\<exists>k < length ([q] @ rest). reduceBest q rest = Inr (([q] @ rest) ! k)
           \<and> (\<forall>x \<in> set ([q] @ rest). v x \<le> v (([q] @ rest) ! k))
           \<and> (\<forall>x \<in> set (take k ([q] @ rest)). v x < v (([q] @ rest) ! k))"
    by (rule reduceBest_first_max[of "[q]" rest v 0 q]) (use assms(2) qs in auto)
  then show ?thesis by (simp add: qs bestQuote_def)
qed

lemma demoQuote_amounts:
  "outputAmountOf (demoQuote ''pancake'') = Inr 900"
  "outputAmountOf (demoQuote ''liquidswap'') = Inr 950"
  "outputAmountOf (demoQuote ''thala'') = Inr 950"
  by code_simp+

theorem bestQuote_first_maximum_witness:
  "demoQuotes \<noteq> []
   \<and> map outputAmountOf demoQuotes = [Inr 900, Inr 950, Inr 950]
   \<and> demoQuotes ! 1 \<noteq> demoQuotes ! 2
   \<and> bestQuote demoQuotes = Inr (demoQuotes ! 1)"
proof -
  have ne: "demoQuotes \<noteq> []" by (simp add: demoQuotes_def)
  have amounts: "map outputAmountOf demoQuotes = [Inr 900, Inr 950, Inr 950]"
    by (simp add: demoQuotes_def demoQuote_amounts)
  have v: "amountValue (demoQuotes ! 0) = 900" "amountValue (demoQuotes ! 1) = 950"
    "amountValue (demoQuotes ! 2) = 950"
    by (simp_all add: demoQuotes_def amountValue_def demoQuote_amounts)
  have hyp: "\<forall>q \<in> set demoQuotes. outputAmountOf q = Inr (amountValue q)"
    by (simp add: demoQuotes_def amountValue_def demoQuote_amounts)
  have len: "length demoQuotes = 3" by (simp add: demoQuotes_def)
  have distinct: "demoQuotes ! 1 \<noteq> demoQuotes ! 2" by (simp add: demoQuotes_def demoQuote_def)
  from bestQuote_first_maximum[OF ne hyp, of JNull]
  obtain i where i: "i < length demoQuotes" "bestQuote demoQuotes = Inr (demoQuotes ! i)"
    and mx: "\<forall>q \<in> set demoQuotes. amountValue q \<le> amountValue (demoQuotes ! i)"
    and fst: "\<forall>q \<in> set (take i demoQuotes). amountValue q < amountValue (demoQuotes ! i)"
    by blast
  from i(1) len consider "i = 0" | "i = 1" | "i = 2" by linarith
  then have "i = 1"
  proof cases
    case 1
    have "demoQuotes ! 1 \<in> set demoQuotes" using len by (simp add: nth_mem)
    with mx have "amountValue (demoQuotes ! 1) \<le> amountValue (demoQuotes ! 0)"
      unfolding 1 by blast
    with v show ?thesis by simp
  next
    case 2
    then show ?thesis .
  next
    case 3
    have "demoQuotes ! 1 \<in> set (take 2 demoQuotes)"
      by (simp add: demoQuotes_def)
    with fst have "amountValue (demoQuotes ! 1) < amountValue (demoQuotes ! 2)"
      unfolding 3 by blast
    with v show ?thesis by simp
  qed
  with i(2) have "bestQuote demoQuotes = Inr (demoQuotes ! 1)" by simp
  with ne amounts distinct show ?thesis by simp
qed

subsection \<open>Swap suggestions\<close>

lemma execute_calculateSwap_events: "snd (execute w p ''calculateSwap'' params) = []"
proof (cases p)
  case LiquidityPoolPlugin
  then show ?thesis
    by (cases "js_get params ''poolAddress''"; cases "js_get params ''amount''")
       (simp_all add: LiquidityPoolPlugin_execute_def io_simps)
next
  case (OtherPlugin f)
  then show ?thesis by (simp add: io_simps)
qed

lemma dispatch_calculateSwap:
  "plugins a ''liquidityPool'' = Some p \<Longrightarrow>
   executePluginAction w a ''liquidityPool'' ''calculateSwap'' params =
     (fst (execute w p ''calculateSwap'' params),
      [PluginExecute ''liquidityPool'' ''calculateSwap'' params])"
  by (simp add: executePluginAction_def io_log_def execute_calculateSwap_events)

lemma generateSwapAdvice_events:
  "snd (generateSwapAdvice w qs b f t a) = [ChatCompletion (SwapAdvicePrompt qs b f t a)]"
  by (cases "chat_completion w (SwapAdvicePrompt qs b f t a)")
     (simp_all add: generateSwapAdvice_def io_simps)

text \<open>
  C8. With a plugin registered under \<^verbatim>\<open>liquidityPool\<close>, \<^verbatim>\<open>suggestOptimalSwap\<close> starts by
  dispatching \<^verbatim>\<open>calculateSwap\<close> to that one plugin, once for each of the exchange names
  "pancake" and "liquidswap", the name being passed in the parameters, and it dispatches
  nothing else. The dispatches are concurrent: all of them are issued before any answer is
  awaited, so both are in the log whatever either of them answers, also when the first one
  fails.
\<close>

theorem suggestOptimalSwap_dispatch:
  assumes "plugins (DeFiAdvisorAgent.aptosAI this) ''liquidityPool'' = Some p"
  shows "\<exists>rest. snd (suggestOptimalSwap w this fromTok toTok amt) =
            map (\<lambda>dex. PluginExecute ''liquidityPool'' ''calculateSwap''
                          (swapParams dex fromTok toTok amt)) [''pancake'', ''liquidswap''] @ rest
            \<and> (\<forall>n a prm. PluginExecute n a prm \<notin> set rest)"
proof -
  let ?P = "\<lambda>dex. PluginExecute ''liquidityPool'' ''calculateSwap'' (swapParams dex fromTok toTok amt)"
  let ?A = "io_all (map (\<lambda>dex. executePluginAction w (DeFiAdvisorAgent.aptosAI this)
                                  ''liquidityPool'' ''calculateSwap''
                                  (swapParams dex fromTok toTok amt)) dexes)"
  have sndA: "snd ?A = [?P ''pancake'', ?P ''liquidswap'']"
    by (simp add: dexes_def dispatch_calculateSwap[OF assms] split: prod.splits)
  show ?thesis
  proof (cases "fst ?A")
    case (Inl e)
    then have "snd (suggestOptimalSwap w this fromTok toTok amt)
                 = [?P ''pancake'', ?P ''liquidswap'']"
      using sndA by (simp add: suggestOptimalSwap_def io_catch_snd io_bind_fst_snd)
    then show ?thesis by simp
  next
    case (Inr qs)
    show ?thesis
    proof (cases "bestQuote qs")
      case (Inl e)
      then have "snd (suggestOptimalSwap w this fromTok toTok amt)
                   = [?P ''pancake'', ?P ''liquidswap'']"
        using sndA Inr by (simp add: suggestOptimalSwap_def io_catch_snd io_bind_fst_snd io_simps)
      then show ?thesis by simp
    next
      case (Inr b)
      then have "snd (suggestOptimalSwap w this fromTok toTok amt) =
           [?P ''pancake'', ?P ''liquidswap'']
           @ [ChatCompletion (SwapAdvicePrompt qs b fromTok toTok amt)]"
        using sndA \<open>fst ?A = Inr qs\<close>
        by (simp add: suggestOptimalSwap_def io_catch_snd io_bind_fst_snd io_simps
              generateSwapAdvice_events split: sum.splits)
      then show ?thesis by simp
    qed
  qed
qed

lemma constructed_agent:
  "DeFiAdvisorAgent_constructor demoWorld ''https://node'' ''sk-demo'' = Inr demoAgent"
  by (simp add: DeFiAdvisorAgent_constructor_def AptosAI_constructor_def truthy_key_def
        initializePlugins_def demoWorld_def demoAgent_def keylessAI_def)

lemma suggestOptimalSwap_first_dispatch_fails:
  "suggestOptimalSwap demoWorld failingAgent ''APT'' ''USDC'' ''1000'' =
     (Inl (SwapAnalysisFailed (External ''pool offline'')),
      [PluginExecute ''liquidityPool'' ''calculateSwap'' (swapParams ''pancake'' ''APT'' ''USDC'' ''1000''),
       PluginExecute ''liquidityPool'' ''calculateSwap'' (swapParams ''liquidswap'' ''APT'' ''USDC'' ''1000'')])"
  by (simp add: suggestOptimalSwap_def dexes_def executePluginAction_def io_log_def
        failingAgent_def failingPlugin_def registerPlugin_def io_simps)

theorem suggestOptimalSwap_dispatch_witness:
  "DeFiAdvisorAgent_constructor demoWorld ''https://node'' ''sk-demo'' = Inr demoAgent
   \<and> plugins (DeFiAdvisorAgent.aptosAI demoAgent) ''liquidityPool'' = Some LiquidityPoolPlugin
   \<and> (\<exists>rest. snd (suggestOptimalSwap demoWorld demoAgent ''APT'' ''USDC'' ''1000'') =
         [PluginExecute ''liquidityPool'' ''calculateSwap'' (swapParams ''pancake'' ''APT'' ''USDC'' ''1000''),
          PluginExecute ''liquidityPool'' ''calculateSwap'' (swapParams ''liquidswap'' ''APT'' ''USDC'' ''1000'')]
         @ rest
         \<and> (\<forall>n a prm. PluginExecute n a prm \<notin> set rest))
   \<and> plugins (DeFiAdvisorAgent.aptosAI failingAgent) ''liquidityPool'' = Some failingPlugin
   \<and> fst (suggestOptimalSwap demoWorld failingAgent ''APT'' ''USDC'' ''1000'') =
       Inl (SwapAnalysisFailed (External ''pool offline''))
   \<and> (\<exists>rest. snd (suggestOptimalSwap demoWorld failingAgent ''APT'' ''USDC'' ''1000'') =
         [PluginExecute ''liquidityPool'' ''calculateSwap'' (swapParams ''pancake'' ''APT'' ''USDC'' ''1000''),
          PluginExecute ''liquidityPool'' ''calculateSwap'' (swapParams ''liquidswap'' ''APT'' ''USDC'' ''1000'')]
         @ rest
         \<and> (\<forall>n a prm. PluginExecute n a prm \<notin> set rest))"
proof -
  have reg: "plugins (DeFiAdvisorAgent.aptosAI demoAgent) ''liquidityPool'' = Some LiquidityPoolPlugin"
    by (simp add: demoAgent_def registerPlugin_def)
  have reg': "plugins (DeFiAdvisorAgent.aptosAI failingAgent) ''liquidityPool'' = Some failingPlugin"
    by (simp add: failingAgent_def registerPlugin_def)
  note t1 = suggestOptimalSwap_dispatch[OF reg, of demoWorld "''APT''" "''USDC''" "''1000''"]
  note t2 = suggestOptimalSwap_dispatch[OF reg', of demoWorld "''APT''" "''USDC''" "''1000''"]
  have f: "fst (suggestOptimalSwap demoWorld failingAgent ''APT'' ''USDC'' ''1000'') =
       Inl (SwapAnalysisFailed (External ''pool offline''))"
    by (simp add: suggestOptimalSwap_first_dispatch_fails)
  from constructed_agent reg reg' f t1 t2 show ?thesis by simp
qed

text \<open>On the agent as its constructor builds it, both dispatches go to \<^verbatim>\<open>liquidityPool\<close>,
  neither name of the list is a registered plugin, and the call does not return a pair: the
  plugin of the repository answers \<^verbatim>\<open>calculateSwap\<close> with \<^verbatim>\<open>estimatedOutput\<close>, the
  reduction reads \<^verbatim>\<open>outputAmount\<close>, and \<^verbatim>\<open>BigInt(undefined)\<close> throws.\<close>

theorem suggestOptimalSwap_plugin_names_counterexample:
  "DeFiAdvisorAgent_constructor demoWorld ''https://node'' ''sk-demo'' = Inr demoAgent
   \<and> suggestOptimalSwap demoWorld demoAgent ''APT'' ''USDC'' ''1000'' =
       (Inl (SwapAnalysisFailed (BigIntError JUndefined)),
        [PluginExecute ''liquidityPool'' ''calculateSwap'' (swapParams ''pancake'' ''APT'' ''USDC'' ''1000''),
         PluginExecute ''liquidityPool'' ''calculateSwap'' (swapParams ''liquidswap'' ''APT'' ''USDC'' ''1000'')])
   \<and> plugins (DeFiAdvisorAgent.aptosAI demoAgent) ''pancake'' = None
   \<and> plugins (DeFiAdvisorAgent.aptosAI demoAgent) ''liquidswap'' = None"
proof -
  have reg: "plugins (DeFiAdvisorAgent.aptosAI demoAgent) ''liquidityPool'' = Some LiquidityPoolPlugin"
    by (simp add: demoAgent_def registerPlugin_def)
  have "suggestOptimalSwap demoWorld demoAgent ''APT'' ''USDC'' ''1000'' =
       (Inl (SwapAnalysisFailed (BigIntError JUndefined)),
        [PluginExecute ''liquidityPool'' ''calculateSwap'' (swapParams ''pancake'' ''APT'' ''USDC'' ''1000''),
         PluginExecute ''liquidityPool'' ''calculateSwap'' (swapParams ''liquidswap'' ''APT'' ''USDC'' ''1000'')])"
    by (simp add: suggestOptimalSwap_def dexes_def dispatch_calculateSwap[OF reg]
          LiquidityPoolPlugin_execute_def swapParams_def obj_get_def calculateSwap_def
          bestQuote_def outputAmountOf_def io_simps)
  with constructed_agent show ?thesis
    by (simp add: demoAgent_def keylessAI_def registerPlugin_def)
qed

text \<open>The same on every agent a constructor builds, in every world and for every
  argument: the selection fails.\<close>

lemma suggestOptimalSwap_repository_plugin:
  assumes "plugins (DeFiAdvisorAgent.aptosAI this) ''liquidityPool'' = Some LiquidityPoolPlugin"
  shows "fst (suggestOptimalSwap w this fromTok toTok amt)
           = Inl (SwapAnalysisFailed (BigIntError JUndefined))"
  by (simp add: suggestOptimalSwap_def dexes_def dispatch_calculateSwap[OF assms]
        LiquidityPoolPlugin_execute_def swapParams_def obj_get_def calculateSwap_def
        bestQuote_def outputAmountOf_def io_simps)

lemma suggestOptimalSwap_constructed_agent:
  assumes "DeFiAdvisorAgent_constructor w nodeUrl openaiKey = Inr this"
  shows "fst (suggestOptimalSwap w' this fromTok toTok amt)
           = Inl (SwapAnalysisFailed (BigIntError JUndefined))"
proof -
  have "plugins (DeFiAdvisorAgent.aptosAI this) ''liquidityPool'' = Some LiquidityPoolPlugin"
    using assms
    by (auto simp: DeFiAdvisorAgent_constructor_def initializePlugins_def registerPlugin_def
          split: sum.splits)
  then show ?thesis by (rule suggestOptimalSwap_repository_plugin)
qed

subsection \<open>The risk level\<close>

text \<open>
  C10. \<^verbatim>\<open>determineRiskLevel\<close> is a total function of the text. It is HIGH when the
  lower-cased text contains one of "dangerous", "risky", "unstable", "vulnerable"; otherwise
  LOW when it contains one of "safe", "secure", "reliable", "established"; otherwise MEDIUM.
  Two texts that are equal up to case have the same level.
\<close>

theorem determineRiskLevel_keywords:
  "determineRiskLevel analysis =
     (if \<exists>t \<in> set [''dangerous'', ''risky'', ''unstable'', ''vulnerable''].
           \<exists>p q. toLowerCase analysis = p @ t @ q then HIGH
      else if \<exists>t \<in> set [''safe'', ''secure'', ''reliable'', ''established''].
           \<exists>p q. toLowerCase analysis = p @ t @ q then LOW
      else MEDIUM)
   \<and> (\<forall>other. toLowerCase other = toLowerCase analysis \<longrightarrow>
         determineRiskLevel other = determineRiskLevel analysis)"
  by (simp add: determineRiskLevel_def Let_def list_ex_iff includes_iff highRiskTerms_def
        lowRiskTerms_def)

theorem determineRiskLevel_keywords_witness:
  "determineRiskLevel ''Looks SAFE, yet the pool is Risky'' = HIGH
   \<and> determineRiskLevel ''Audited and Secure'' = LOW
   \<and> determineRiskLevel ''No opinion'' = MEDIUM
   \<and> toLowerCase ''UNSTABLE peg'' = toLowerCase ''unstable peg''
   \<and> determineRiskLevel ''UNSTABLE peg'' = determineRiskLevel ''unstable peg''"
proof -
  have l1: "toLowerCase ''Looks SAFE, yet the pool is Risky'' = ''looks safe, yet the pool is risky''"
    by code_simp
  have l2: "toLowerCase ''Audited and Secure'' = ''audited and secure''" by code_simp
  have l3: "toLowerCase ''No opinion'' = ''no opinion''" by code_simp
  have l4: "toLowerCase ''UNSTABLE peg'' = toLowerCase ''unstable peg''" by code_simp
  note t1 = determineRiskLevel_keywords[of "''Looks SAFE, yet the pool is Risky''"]
  note t2 = determineRiskLevel_keywords[of "''Audited and Secure''"]
  note t3 = determineRiskLevel_keywords[of "''No opinion''"]
  note t4 = determineRiskLevel_keywords[of "''unstable peg''"]
  from t1 have r1: "determineRiskLevel ''Looks SAFE, yet the pool is Risky'' = HIGH"
    unfolding l1 by (simp add: includes_iff[symmetric])
  from t2 have r2: "determineRiskLevel ''Audited and Secure'' = LOW"
    unfolding l2 by (simp add: includes_iff[symmetric])
  from t3 have r3: "determineRiskLevel ''No opinion'' = MEDIUM"
    unfolding l3 by (simp add: includes_iff[symmetric])
  from t4 l4 have r4: "determineRiskLevel ''UNSTABLE peg'' = determineRiskLevel ''unstable peg''"
    by blast
  from r1 r2 r3 l4 r4 show ?thesis by simp
qed

section \<open>The trading loop\<close>

text \<open>
  C6. A cycle that starts when a trade is on record and less than the minimum interval has
  passed since returns at once: the bot is unchanged and nothing was called, neither a
  market feed nor the model nor the node.
\<close>

theorem monitorAndTrade_debounce:
  "lastTrade this = Some t \<Longrightarrow> date_now w - t < minTradeInterval this \<Longrightarrow>
     monitorAndTrade w this = (Inr this, [])"
  by (simp add: monitorAndTrade_def io_simps)

theorem monitorAndTrade_debounce_witness:
  "TradingBot_constructor demoWorld ''https://node'' ''a1b2c3'' ''sk-demo'' ''momentum'' None
     = Inr idleBot
   \<and> lastTrade demoBot = Some 1699999995000
   \<and> date_now demoWorld - 1699999995000 = 5000
   \<and> minTradeInterval demoBot = 300000
   \<and> monitorAndTrade demoWorld demoBot = (Inr demoBot, [])"
proof -
  have c: "TradingBot_constructor demoWorld ''https://node'' ''a1b2c3'' ''sk-demo'' ''momentum'' None
             = Inr idleBot"
    by (simp add: TradingBot_constructor_def AptosAI_constructor_def truthy_key_def
          initializePlugins_def demoWorld_def idleBot_def demoAI_def freshAI_def demoAccount_def)
  have l: "lastTrade demoBot = Some 1699999995000" by (simp add: demoBot_def)
  have d: "date_now demoWorld - 1699999995000 = 5000" by (simp add: demoWorld_def)
  have m: "minTradeInterval demoBot = 300000" by (simp add: demoBot_def idleBot_def)
  have "date_now demoWorld - 1699999995000 < minTradeInterval demoBot"
    unfolding d m by simp
  from monitorAndTrade_debounce[OF l this]
  have "monitorAndTrade demoWorld demoBot = (Inr demoBot, [])" .
  with c l d m show ?thesis by simp
qed

lemma getMarketData_ok:
  "fetchPrices w = Inr p \<Longrightarrow> fetchVolumes w = Inr v \<Longrightarrow> fetchLiquidity w = Inr l \<Longrightarrow>
   getMarketData w =
     (Inr \<lparr>prices = p, volumes = v, liquidityDepth = l, timestamp = date_market w\<rparr>,
      [FetchPrices, FetchVolumes, FetchLiquidity])"
  by (simp add: getMarketData_def io_both_def io_simps)

lemma validateTrade_insufficient:
  assumes "fst (getAccountBalance w (TradingBot.aptosAI this) (getAddress w) (Some (fromToken tr)))
             = Inr balance"
    and "BigInt balance = Inr b" and "BigInt (amount tr) = Inr a" and "b < a"
  shows "validateTrade w this (Some tr) =
           (Inl InsufficientBalance, [GetAccountResources (JStr (getAddress w))])"
proof -
  have "getAccountBalance w (TradingBot.aptosAI this) (getAddress w) (Some (fromToken tr))
        = (Inr balance, [GetAccountResources (JStr (getAddress w))])"
    using assms(1)
      getAccountBalance_events[of w "TradingBot.aptosAI this" "getAddress w" "Some (fromToken tr)"]
    by (metis prod.collapse)
  then show ?thesis
    using assms(2-4) by (simp add: validateTrade_def io_simps)
qed

text \<open>
  C5. When a cycle is not skipped, the market data arrive, the model answers, the answer
  parses to a decision to trade, and the balance of the token to sell converts to an integer
  strictly below the integer of the amount to trade, the cycle fails with "Insufficient
  balance for trade" (under the prefixes of the two \<^verbatim>\<open>catch\<close> blocks it passes), and
  what was called is the three market feeds, the model and the resource fetch: no
  transaction was generated, signed or submitted.
\<close>

theorem monitorAndTrade_insufficient_balance:
  assumes "\<forall>t. lastTrade this = Some t \<longrightarrow> minTradeInterval this \<le> date_now w - t"
    and "fetchPrices w = Inr p" and "fetchVolumes w = Inr v" and "fetchLiquidity w = Inr l"
    and "md = \<lparr>prices = p, volumes = v, liquidityDepth = l, timestamp = date_market w\<rparr>"
    and "chat_completion w (MarketPrompt (strategy this) md) = Inr content"
    and "parseTradeDecision w content = Inr decision"
    and "shouldTrade decision" and "trade decision = Some tr"
    and "fst (getAccountBalance w (TradingBot.aptosAI this) (getAddress w) (Some (fromToken tr)))
           = Inr balance"
    and "BigInt balance = Inr b" and "BigInt (amount tr) = Inr a" and "b < a"
  shows "monitorAndTrade w this =
           (Inl (TradingCycleFailed (MarketAnalysisFailed InsufficientBalance)),
            [FetchPrices, FetchVolumes, FetchLiquidity,
             ChatCompletion (MarketPrompt (strategy this) md),
             GetAccountResources (JStr (getAddress w))])
         \<and> (\<forall>s. SubmitTransaction s \<notin> set (snd (monitorAndTrade w this)))"
proof -
  have skip: "(case lastTrade this of None \<Rightarrow> False
               | Some t \<Rightarrow> date_now w - t < minTradeInterval this) = False"
    using assms(1) by (cases "lastTrade this") (auto simp: not_less)
  have md: "getMarketData w = (Inr md, [FetchPrices, FetchVolumes, FetchLiquidity])"
    using getMarketData_ok[OF assms(2-4)] assms(5) by simp
  have val: "validateTrade w this (trade decision) =
               (Inl InsufficientBalance, [GetAccountResources (JStr (getAddress w))])"
    using validateTrade_insufficient[OF assms(10-13)] assms(9) by simp
  have am: "analyzeMarket w this md = (Inl (MarketAnalysisFailed InsufficientBalance),
      [ChatCompletion (MarketPrompt (strategy this) md), GetAccountResources (JStr (getAddress w))])"
    using assms(6-8) val by (simp add: analyzeMarket_def io_simps)
  have "monitorAndTrade w this =
           (Inl (TradingCycleFailed (MarketAnalysisFailed InsufficientBalance)),
            [FetchPrices, FetchVolumes, FetchLiquidity,
             ChatCompletion (MarketPrompt (strategy this) md),
             GetAccountResources (JStr (getAddress w))])"
    unfolding monitorAndTrade_def skip using md am by (simp add: io_simps)
  then show ?thesis by simp
qed

theorem monitorAndTrade_insufficient_balance_witness:
  "fst (getAccountBalance demoWorld (TradingBot.aptosAI idleBot) (getAddress demoWorld)
          (Some (fromToken demoTrade))) = Inr (JStr ''50'')
   \<and> amount demoTrade = JStr ''100''
   \<and> BigInt (JStr ''50'') = Inr 50 \<and> BigInt (JStr ''100'') = Inr 100
   \<and> monitorAndTrade demoWorld idleBot =
        (Inl (TradingCycleFailed (MarketAnalysisFailed InsufficientBalance)),
         [FetchPrices, FetchVolumes, FetchLiquidity,
          ChatCompletion (MarketPrompt ''momentum''
            \<lparr>prices = JObj [], volumes = JObj [], liquidityDepth = JObj [],
             timestamp = 1700000000100\<rparr>),
          GetAccountResources (JStr ''0xabc'')])"
proof -
  have bal: "fst (getAccountBalance demoWorld (TradingBot.aptosAI idleBot) (getAddress demoWorld)
          (Some (fromToken demoTrade))) = Inr (JStr ''50'')"
    by (simp add: getAccountBalance_def getAccountResources_def io_simps Let_def demoWorld_def
          walletResources_def demoResources_def demoTrade_def coinValue_def obj_get_def js_or_def)
  have b50: "BigInt (JStr ''50'') = Inr 50" by code_simp
  have b100: "BigInt (amount demoTrade) = Inr 100" unfolding demoTrade_def by code_simp
  have b100': "BigInt (JStr ''100'') = Inr 100" by code_simp
  have h1: "\<forall>t. lastTrade idleBot = Some t \<longrightarrow> minTradeInterval idleBot \<le> date_now demoWorld - t"
    by (simp add: idleBot_def)
  have h2: "fetchPrices demoWorld = Inr (JObj [])" by (simp add: demoWorld_def)
  have h3: "fetchVolumes demoWorld = Inr (JObj [])" by (simp add: demoWorld_def)
  have h4: "fetchLiquidity demoWorld = Inr (JObj [])" by (simp add: demoWorld_def)
  define md where "md = \<lparr>prices = JObj [], volumes = JObj [], liquidityDepth = JObj [],
             timestamp = date_market demoWorld\<rparr>"
  have h6: "chat_completion demoWorld (MarketPrompt (strategy idleBot) md) = Inr ''advice''"
    by (simp add: demoWorld_def)
  have h7: "parseTradeDecision demoWorld ''advice'' = Inr demoDecision" by (simp add: demoWorld_def)
  have h8: "shouldTrade demoDecision" by (simp add: demoDecision_def)
  have h9: "trade demoDecision = Some demoTrade" by (simp add: demoDecision_def)
  have lt: "(50::int) < 100" by simp
  note t = monitorAndTrade_insufficient_balance[OF h1 h2 h3 h4 md_def h6 h7 h8 h9 bal b50 b100 lt]
  have st: "strategy idleBot = ''momentum''" by (simp add: idleBot_def)
  have dm: "date_market demoWorld = 1700000000100" by (simp add: demoWorld_def)
  have ga: "getAddress demoWorld = ''0xabc''" by (simp add: demoWorld_def)
  have am: "amount demoTrade = JStr ''100''" by (simp add: demoTrade_def)
  from t have "monitorAndTrade demoWorld idleBot =
        (Inl (TradingCycleFailed (MarketAnalysisFailed InsufficientBalance)),
         [FetchPrices, FetchVolumes, FetchLiquidity,
          ChatCompletion (MarketPrompt ''momentum''
            \<lparr>prices = JObj [], volumes = JObj [], liquidityDepth = JObj [],
             timestamp = 1700000000100\<rparr>),
          GetAccountResources (JStr ''0xabc'')])"
    unfolding md_def st dm ga by (rule conjunct1)
  with bal b50 b100' am show ?thesis by blast
qed

end
